theory Spec2Isabelle
  imports Complex_Main
begin

section \<open>Accounts (models/User)\<close>

text \<open>
  A document of the \<^verbatim>\<open>User\<close> collection, with the fields of \<^verbatim>\<open>IUser\<close>.
  \<open>uid\<close> is the document's \<^verbatim>\<open>_id\<close>. \<open>password\<close> holds the plain text between
  \<^verbatim>\<open>new User\<close> and the pre-save hook, and the bcrypt hash once stored.
  Times are milliseconds since the epoch, as \<^verbatim>\<open>Date.now()\<close> gives them.
\<close>

record user =
  uid :: nat
  email :: string
  password :: "string option"
  firstName :: string
  lastName :: string
  isEmailVerified :: bool
  googleId :: "string option"
  profilePicture :: string
  otp :: "string option"
  otpExpiry :: "nat option"

text \<open>The collection, in insertion order.\<close>

type_synonym db = "user list"

section \<open>Process environment and library functions\<close>

text \<open>The variables of \<^verbatim>\<open>process.env\<close> that the authentication code reads.\<close>

record env =
  JWT_SECRET :: "string option"
  JWT_EXPIRE :: "string option"
  NODE_ENV :: "string option"

text \<open>
  Functions of third-party packages, taken as parameters:
  \<open>isEmail\<close> is Joi's \<^verbatim>\<open>string().email()\<close> rule, \<open>ms\<close> the time-span parser that
  \<^verbatim>\<open>jsonwebtoken\<close> applies to a string \<^verbatim>\<open>expiresIn\<close> (milliseconds, or nothing when
  the string is no time span), \<open>bcrypt_hash\<close> and \<open>bcrypt_compare\<close> are
  \<^verbatim>\<open>bcrypt.hash(password, salt)\<close> and \<^verbatim>\<open>bcrypt.compare(password, hash)\<close>.
\<close>

record lib =
  isEmail :: "string \<Rightarrow> bool"
  ms :: "string \<Rightarrow> real option"
  bcrypt_hash :: "string \<Rightarrow> string \<Rightarrow> string"
  bcrypt_compare :: "string \<Rightarrow> string \<Rightarrow> bool"

text \<open>
  JavaScript's \<^verbatim>\<open>process.env.X || d\<close>: an unset variable and the empty string are both
  falsy.
\<close>

definition or_default :: "string option \<Rightarrow> string \<Rightarrow> string" where
  "or_default v d = (case v of None \<Rightarrow> d | Some s \<Rightarrow> if s = [] then d else s)"

section \<open>Token service (utils/jwt.ts)\<close>

datatype JWTPayload = JWTPayload (userId: nat) (payloadEmail: string)

text \<open>
  A compact JWS is modelled symbolically: \<open>JWS p k iat ex\<close> is the token that
  \<^verbatim>\<open>jwt.sign\<close> makes for payload \<open>p\<close> with key \<open>k\<close>, issued at second \<open>iat\<close> and
  expiring at second \<open>ex\<close>; every other string is \<open>Malformed\<close>. The signature is
  ideal: a token verifies under a key exactly when it was signed with that key.
\<close>

datatype token = JWS JWTPayload string nat int | Malformed string

datatype jwt_error = JsonWebTokenError string | TokenExpiredError | SignError

text \<open>
  \<^verbatim>\<open>jwt.sign(payload, secret, { expiresIn })\<close> with a string time span:
  \<^verbatim>\<open>iat = floor(Date.now() / 1000)\<close>, \<^verbatim>\<open>exp = floor(iat + ms(expiresIn) / 1000)\<close>;
  it throws when the span does not parse.
\<close>

definition jwt_sign :: "lib \<Rightarrow> nat \<Rightarrow> JWTPayload \<Rightarrow> string \<Rightarrow> string \<Rightarrow> jwt_error + token" where
  "jwt_sign L now p secret expiresIn =
     (case ms L expiresIn of
        None \<Rightarrow> Inl SignError
      | Some m \<Rightarrow> (let iat = now div 1000 in Inr (JWS p secret iat \<lfloor>real iat + m / 1000\<rfloor>)))"

text \<open>
  \<^verbatim>\<open>jwt.verify(token, secret)\<close>: structure first (an empty string, a string that does
  not have three parts between dots, a string that does not decode), then the signature,
  then \<^verbatim>\<open>clockTimestamp >= exp\<close> with \<^verbatim>\<open>clockTimestamp = floor(Date.now() / 1000)\<close>.
\<close>

definition malformed_message :: "string \<Rightarrow> string" where
  "malformed_message s =
     (if s = [] then ''jwt must be provided''
      else if length (filter (\<lambda>c. c = CHR ''.'') s) \<noteq> 2 then ''jwt malformed''
      else ''invalid token'')"

fun jwt_verify :: "nat \<Rightarrow> token \<Rightarrow> string \<Rightarrow> jwt_error + JWTPayload" where
  "jwt_verify now (Malformed s) secret = Inl (JsonWebTokenError (malformed_message s))"
| "jwt_verify now (JWS p k iat ex) secret =
     (if k \<noteq> secret then Inl (JsonWebTokenError ''invalid signature'')
      else if ex \<le> int (now div 1000) then Inl TokenExpiredError
      else Inr p)"

definition secret :: "env \<Rightarrow> string" where
  "secret E = or_default (JWT_SECRET E) ''default-secret''"

definition expiresIn :: "env \<Rightarrow> string" where
  "expiresIn E = or_default (JWT_EXPIRE E) ''7d''"

definition generateToken :: "lib \<Rightarrow> env \<Rightarrow> nat \<Rightarrow> user \<Rightarrow> jwt_error + token" where
  "generateToken L E now u =
     jwt_sign L now (JWTPayload (uid u) (email u)) (secret E) (expiresIn E)"

definition verifyToken :: "env \<Rightarrow> nat \<Rightarrow> token \<Rightarrow> jwt_error + JWTPayload" where
  "verifyToken E now t = jwt_verify now t (secret E)"

text \<open>The instant, in milliseconds, at which a signed token expires.\<close>

fun expiry_ms :: "token \<Rightarrow> int" where
  "expiry_ms (JWS p k iat ex) = ex * 1000"
| "expiry_ms (Malformed s) = 0"

fun signing_key :: "token \<Rightarrow> string option" where
  "signing_key (JWS p k iat ex) = Some k"
| "signing_key (Malformed s) = None"

section \<open>Strings\<close>

text \<open>
  A string is a list of UTF-16 code units, and a \<open>char\<close> is a code unit below 256 (the
  Latin-1 range): the model covers the strings made of such code units. On them
  \<^verbatim>\<open>String.prototype.toLowerCase\<close> maps \<^verbatim>\<open>A\<close> to \<^verbatim>\<open>Z\<close> and the capital letters
  U+00C0 to U+00DE (but not the sign U+00D7) to the letter 32 code units above, and
  \<^verbatim>\<open>String.prototype.trim\<close> strips the white space and line terminators of the
  language: tab, line feed, vertical tab, form feed, carriage return, space, and the
  no-break space U+00A0.
\<close>

definition toLowerCase_char :: "char \<Rightarrow> char" where
  "toLowerCase_char c =
     (let n = (of_char c :: nat)
      in if (65 \<le> n \<and> n \<le> 90) \<or> (192 \<le> n \<and> n \<le> 222 \<and> n \<noteq> 215)
         then char_of (n + 32) else c)"

definition toLowerCase :: "string \<Rightarrow> string" where
  "toLowerCase s = map toLowerCase_char s"

definition isSpace :: "char \<Rightarrow> bool" where
  "isSpace c = ((of_char c :: nat) \<in> {9, 10, 11, 12, 13, 32, 160})"

definition trim :: "string \<Rightarrow> string" where
  "trim s = rev (dropWhile isSpace (rev (dropWhile isSpace s)))"

text \<open>\<^verbatim>\<open>Number.prototype.toString\<close> of an integer, in decimal.\<close>

definition digit :: "nat \<Rightarrow> char" where
  "digit d = ''0123456789'' ! d"

function toString_nat :: "nat \<Rightarrow> string" where
  "toString_nat n = (if n < 10 then [digit n] else toString_nat (n div 10) @ [digit (n mod 10)])"
  by pat_completeness auto
termination
  by (relation "measure (\<lambda>n. n)") auto

declare toString_nat.simps [simp del]

definition toString :: "int \<Rightarrow> string" where
  "toString i = (if i < 0 then CHR ''-'' # toString_nat (nat (- i)) else toString_nat (nat i))"

definition isDigit :: "char \<Rightarrow> bool" where
  "isDigit c = (48 \<le> (of_char c :: nat) \<and> (of_char c :: nat) \<le> 57)"

section \<open>Regular expressions\<close>

text \<open>
  The fragment of JavaScript regular expressions that the schema's \<^verbatim>\<open>match\<close> rule
  uses, matched against the whole string (the pattern is anchored with \<^verbatim>\<open>^\<close> and
  \<^verbatim>\<open>$\<close>) by derivatives.
\<close>

datatype regex =
  NoMatch
| EmptyStr
| OneOf "char list"
| WordChar
| Or regex regex
| Then regex regex
| Many regex

definition isWordChar :: "char \<Rightarrow> bool" where
  "isWordChar c =
     (let n = (of_char c :: nat)
      in (48 \<le> n \<and> n \<le> 57) \<or> (65 \<le> n \<and> n \<le> 90) \<or> (97 \<le> n \<and> n \<le> 122) \<or> n = 95)"

fun nullable :: "regex \<Rightarrow> bool" where
  "nullable NoMatch = False"
| "nullable EmptyStr = True"
| "nullable (OneOf cs) = False"
| "nullable WordChar = False"
| "nullable (Or a b) = (nullable a \<or> nullable b)"
| "nullable (Then a b) = (nullable a \<and> nullable b)"
| "nullable (Many a) = True"

fun deriv :: "char \<Rightarrow> regex \<Rightarrow> regex" where
  "deriv c NoMatch = NoMatch"
| "deriv c EmptyStr = NoMatch"
| "deriv c (OneOf cs) = (if c \<in> set cs then EmptyStr else NoMatch)"
| "deriv c WordChar = (if isWordChar c then EmptyStr else NoMatch)"
| "deriv c (Or a b) = Or (deriv c a) (deriv c b)"
| "deriv c (Then a b) =
     (if nullable a then Or (Then (deriv c a) b) (deriv c b) else Then (deriv c a) b)"
| "deriv c (Many a) = Then (deriv c a) (Many a)"

definition test :: "regex \<Rightarrow> string \<Rightarrow> bool" where
  "test r s = nullable (fold deriv s r)"

definition some :: "regex \<Rightarrow> regex" where
  "some r = Then r (Many r)"

definition opt :: "regex \<Rightarrow> regex" where
  "opt r = Or EmptyStr r"

text \<open>
  \<^verbatim>\<open>/^\w+([.-]?\w+)*@\w+([.-]?\w+)*(\.\w{2,3})+$/\<close>, the \<^verbatim>\<open>match\<close> rule of
  \<^verbatim>\<open>userSchema.email\<close>.
\<close>

definition emailPattern :: regex where
  "emailPattern =
     (let name = Then (some WordChar) (Many (Then (opt (OneOf ''.-'')) (some WordChar)));
          tld = Then (OneOf ''.'') (Then WordChar (Then WordChar (opt WordChar)))
      in Then name (Then (OneOf ''@'') (Then name (some tld))))"

section \<open>The User schema and the store\<close>

text \<open>
  \<^verbatim>\<open>new User({...})\<close>: the schema's setters run on the fields given
  (\<^verbatim>\<open>lowercase\<close> on the email, \<^verbatim>\<open>trim\<close> on both names).
\<close>

definition new_User ::
  "nat \<Rightarrow> string \<Rightarrow> string option \<Rightarrow> string \<Rightarrow> string \<Rightarrow> string option \<Rightarrow> string \<Rightarrow>
   string option \<Rightarrow> nat option \<Rightarrow> bool \<Rightarrow> user" where
  "new_User i e pw fname lname gid pic code expiry verified =
     \<lparr>uid = i, email = toLowerCase e, password = pw, firstName = trim fname, lastName = trim lname,
      isEmailVerified = verified, googleId = gid, profilePicture = pic,
      otp = code, otpExpiry = expiry\<rparr>"

text \<open>
  The validators of \<^verbatim>\<open>userSchema\<close>: \<^verbatim>\<open>required\<close> and \<^verbatim>\<open>match\<close> on the email,
  \<^verbatim>\<open>minlength\<close> on the password when there is one, \<^verbatim>\<open>required\<close> and
  \<^verbatim>\<open>maxlength\<close> on both names.
\<close>

definition validate :: "user \<Rightarrow> bool" where
  "validate d =
     (email d \<noteq> [] \<and> test emailPattern (email d)
      \<and> (case password d of None \<Rightarrow> True | Some p \<Rightarrow> 6 \<le> length p)
      \<and> firstName d \<noteq> [] \<and> length (firstName d) \<le> 50
      \<and> lastName d \<noteq> [] \<and> length (lastName d) \<le> 50)"

text \<open>
  The \<^verbatim>\<open>pre('save')\<close> hook: a password that is set is replaced by its bcrypt hash
  under a fresh salt.
\<close>

definition pre_save :: "lib \<Rightarrow> string \<Rightarrow> user \<Rightarrow> user" where
  "pre_save L salt d =
     (case password d of
        None \<Rightarrow> d
      | Some p \<Rightarrow> if p = [] then d else d\<lparr>password := Some (bcrypt_hash L p salt)\<rparr>)"

datatype store_error = ValidationError | DuplicateKey

text \<open>
  \<^verbatim>\<open>save()\<close> of a new document: validation, the pre-save hook, then the insert, which
  the unique index on \<^verbatim>\<open>email\<close> rejects when the email is already stored.
\<close>

definition save_new :: "lib \<Rightarrow> string \<Rightarrow> db \<Rightarrow> user \<Rightarrow> store_error + (db \<times> user)" where
  "save_new L salt db d =
     (if \<not> validate d then Inl ValidationError
      else (let d' = pre_save L salt d
            in if \<exists>u \<in> set db. email u = email d' then Inl DuplicateKey
               else Inr (db @ [d'], d')))"

text \<open>
  \<^verbatim>\<open>save()\<close> of a loaded document writes its modified paths to the stored document
  with the same \<^verbatim>\<open>_id\<close>. The handlers modify only paths without validators
  (\<^verbatim>\<open>isEmailVerified\<close>, \<^verbatim>\<open>googleId\<close>, \<^verbatim>\<open>otp\<close>, \<^verbatim>\<open>otpExpiry\<close>) and never the
  password, so neither validation nor the hook changes the outcome.
\<close>

fun updateOne :: "(user \<Rightarrow> bool) \<Rightarrow> (user \<Rightarrow> user) \<Rightarrow> db \<Rightarrow> db" where
  "updateOne P f [] = []"
| "updateOne P f (u # us) = (if P u then f u # us else u # updateOne P f us)"

definition save_changes :: "user \<Rightarrow> (user \<Rightarrow> user) \<Rightarrow> db \<Rightarrow> db" where
  "save_changes u f db = updateOne (\<lambda>v. uid v = uid u) f db"

text \<open>A fresh \<^verbatim>\<open>_id\<close> for a new document.\<close>

definition new_id :: "db \<Rightarrow> nat" where
  "new_id db = Suc (fold max (map uid db) 0)"

text \<open>
  \<^verbatim>\<open>User.findOne(filter)\<close> gives the first stored document that satisfies the filter.
  Mongoose casts a filter with the schema, which runs the \<^verbatim>\<open>lowercase\<close> setter on an
  email in a filter as it does on the email of a new document; the handlers below
  therefore compare stored emails with \<open>toLowerCase\<close> of the email they were given.
\<close>

definition findOne :: "(user \<Rightarrow> bool) \<Rightarrow> db \<Rightarrow> user option" where
  "findOne q db = find q db"

definition findById :: "nat \<Rightarrow> db \<Rightarrow> user option" where
  "findById i db = find (\<lambda>u. uid u = i) db"

text \<open>
  Projections. \<^verbatim>\<open>password\<close>, \<^verbatim>\<open>otp\<close> and \<^verbatim>\<open>otpExpiry\<close> are \<^verbatim>\<open>select: false\<close>:
  a query loads them only when asked with \<^verbatim>\<open>+field\<close>.
\<close>

definition select_default :: "user \<Rightarrow> user" where
  "select_default u = u\<lparr>password := None, otp := None, otpExpiry := None\<rparr>"

definition select_password :: "user \<Rightarrow> user" where
  "select_password u = u\<lparr>otp := None, otpExpiry := None\<rparr>"


text \<open>\<^verbatim>\<open>userSchema.methods.comparePassword\<close>.\<close>

definition comparePassword :: "lib \<Rightarrow> user \<Rightarrow> string \<Rightarrow> bool" where
  "comparePassword L u pw =
     (case password u of
        None \<Rightarrow> False
      | Some h \<Rightarrow> if h = [] then False else bcrypt_compare L pw h)"

text \<open>JavaScript's \<^verbatim>\<open>!v\<close> on an optional string.\<close>

definition falsy :: "string option \<Rightarrow> bool" where
  "falsy v = (v = None \<or> v = Some [])"

section \<open>One-time codes and mail (utils/email.ts)\<close>

text \<open>
  What a request reads from outside the program: the clock (\<^verbatim>\<open>Date.now()\<close>), the
  value of \<^verbatim>\<open>Math.random()\<close>, the salt of \<^verbatim>\<open>bcrypt.genSalt\<close>, and whether the
  mail transport delivers.
\<close>

text \<open>
  \<^verbatim>\<open>Math.random()\<close> returns an IEEE double at least 0 and less than 1. Such a double
  is \<open>mant / 2 ^ scale\<close> with a mantissa of at most 53 bits and a scale from 53 to 1074,
  and every such quotient is one.
\<close>

record random_double =
  mant :: nat
  scale :: nat

definition isRandom :: "random_double \<Rightarrow> bool" where
  "isRandom d = (mant d < 2 ^ 53 \<and> 53 \<le> scale d \<and> scale d \<le> 1074)"

definition value_of :: "random_double \<Rightarrow> real" where
  "value_of d = real (mant d) / 2 ^ scale d"

record io =
  clock :: nat
  rnd :: random_double
  salt :: string
  mailOk :: bool

text \<open>
  Double arithmetic on numerators over the common denominator \<open>2 ^ scale\<close>. \<open>bits n\<close>
  is the number of binary digits of \<open>n\<close>; \<open>nearest s n\<close> is the multiple of \<open>2 ^ s\<close>
  nearest to \<open>n\<close>, a tie going to the even quotient; \<open>roundTo53\<close> keeps the 53 leading
  binary digits, which is how the result of a double operation is rounded (the
  magnitudes here are far from overflow, and at a scale of at most 1074 every value
  with at most 53 digits is a double).
\<close>

function bits :: "nat \<Rightarrow> nat" where
  "bits n = (if n = 0 then 0 else Suc (bits (n div 2)))"
  by pat_completeness auto
termination
  by (relation "measure (\<lambda>n. n)") auto

declare bits.simps [simp del]

definition nearest :: "nat \<Rightarrow> nat \<Rightarrow> nat" where
  "nearest s n =
     (let q = n div 2 ^ s; r = n mod 2 ^ s
      in (if 2 ^ s < 2 * r \<or> (2 * r = 2 ^ s \<and> odd q) then q + 1 else q) * 2 ^ s)"

definition roundTo53 :: "nat \<Rightarrow> nat" where
  "roundTo53 n = nearest (bits n - 53) n"

text \<open>
  \<^verbatim>\<open>Math.floor(100000 + Math.random() * 900000).toString()\<close>: the product is rounded
  to a double, then the sum is, then the floor is taken.
\<close>

definition otpNumber :: "random_double \<Rightarrow> int" where
  "otpNumber d =
     int (roundTo53 (100000 * 2 ^ scale d + roundTo53 (mant d * 900000)) div 2 ^ scale d)"

definition generateOTP :: "random_double \<Rightarrow> string" where
  "generateOTP d = toString (otpNumber d)"

text \<open>The number that a string of decimal digits denotes.\<close>

definition decimal_value :: "string \<Rightarrow> nat" where
  "decimal_value s = foldl (\<lambda>a c. 10 * a + ((of_char c :: nat) - 48)) 0 s"

datatype mail_error = SendMailFailed

text \<open>\<^verbatim>\<open>sendOTPEmail\<close> resolves when the transport delivers and rejects otherwise.\<close>

definition sendOTPEmail :: "io \<Rightarrow> string \<Rightarrow> string \<Rightarrow> string \<Rightarrow> mail_error + unit" where
  "sendOTPEmail w to_addr first_name code = (if mailOk w then Inr () else Inl SendMailFailed)"

section \<open>Requests and responses\<close>

record signup_req =
  s_email :: string
  s_password :: string
  s_firstName :: string
  s_lastName :: string

record login_req =
  l_email :: string
  l_password :: string


text \<open>The \<^verbatim>\<open>user\<close> object of a response body.\<close>

datatype profile =
  Profile (p_id: nat) (p_email: string) (p_firstName: string) (p_lastName: string)
    (p_profilePicture: string) (p_isEmailVerified: bool)

definition profile_of :: "user \<Rightarrow> profile" where
  "profile_of u =
     Profile (uid u) (email u) (firstName u) (lastName u) (profilePicture u) (isEmailVerified u)"

datatype resp_data =
  NoData
| Registered string string string bool
| Session token profile

record response =
  status :: nat
  success :: bool
  message :: string
  data :: resp_data

definition failure :: "nat \<Rightarrow> string \<Rightarrow> response" where
  "failure code msg = \<lparr>status = code, success = False, message = msg, data = NoData\<rparr>"

definition session :: "string \<Rightarrow> token \<Rightarrow> user \<Rightarrow> response" where
  "session msg t u =
     \<lparr>status = 200, success = True, message = msg, data = Session t (profile_of u)\<rparr>"

section \<open>Validation schemas (routes/auth.ts)\<close>

text \<open>
  Joi checks the keys in the order of the schema and reports the first error
  (\<^verbatim>\<open>error.details[0].message\<close>). Request fields are strings.
\<close>

definition label :: "string \<Rightarrow> string" where
  "label k = CHR 0x22 # k @ [CHR 0x22]"

definition notEmpty :: "string \<Rightarrow> string \<Rightarrow> string option" where
  "notEmpty k v = (if v = [] then Some (label k @ '' is not allowed to be empty'') else None)"

definition validEmail :: "lib \<Rightarrow> string \<Rightarrow> string \<Rightarrow> string option" where
  "validEmail L k v = (if isEmail L v then None else Some (label k @ '' must be a valid email''))"

definition minLength :: "nat \<Rightarrow> string \<Rightarrow> string \<Rightarrow> string option" where
  "minLength n k v =
     (if n \<le> length v then None
      else Some (label k @ '' length must be at least '' @ toString_nat n @ '' characters long''))"

definition maxLength :: "nat \<Rightarrow> string \<Rightarrow> string \<Rightarrow> string option" where
  "maxLength n k v =
     (if length v \<le> n then None
      else Some (label k @ '' length must be less than or equal to '' @ toString_nat n
                 @ '' characters long''))"


fun first_error :: "string option list \<Rightarrow> string option" where
  "first_error [] = None"
| "first_error (Some m # rest) = Some m"
| "first_error (None # rest) = first_error rest"

definition signupSchema :: "lib \<Rightarrow> signup_req \<Rightarrow> string option" where
  "signupSchema L r =
     first_error
       [notEmpty ''email'' (s_email r), validEmail L ''email'' (s_email r),
        notEmpty ''password'' (s_password r), minLength 6 ''password'' (s_password r),
        notEmpty ''firstName'' (s_firstName r), minLength 1 ''firstName'' (s_firstName r),
        maxLength 50 ''firstName'' (s_firstName r),
        notEmpty ''lastName'' (s_lastName r), minLength 1 ''lastName'' (s_lastName r),
        maxLength 50 ''lastName'' (s_lastName r)]"

definition loginSchema :: "lib \<Rightarrow> login_req \<Rightarrow> string option" where
  "loginSchema L r =
     first_error
       [notEmpty ''email'' (l_email r), validEmail L ''email'' (l_email r),
        notEmpty ''password'' (l_password r)]"


definition googleAuthSchema :: "string \<Rightarrow> string option" where
  "googleAuthSchema t = first_error [notEmpty ''token'' t]"

section \<open>POST /api/auth/signup\<close>

text \<open>
  The handler up to and including its first store read (\<^verbatim>\<open>await User.findOne\<close>):
  a response when the request is refused there, nothing when the handler goes on.
\<close>

definition signup_check :: "lib \<Rightarrow> db \<Rightarrow> signup_req \<Rightarrow> response option" where
  "signup_check L db r =
     (case signupSchema L r of
        Some m \<Rightarrow> Some (failure 400 m)
      | None \<Rightarrow>
          (case findOne (\<lambda>u. email u = toLowerCase (s_email r)) db of
             Some existingUser \<Rightarrow> Some (failure 400 ''User already exists with this email'')
           | None \<Rightarrow> None))"

text \<open>
  The rest of the handler, from \<^verbatim>\<open>generateOTP()\<close> on, run on the store as it is when
  \<^verbatim>\<open>user.save()\<close> reaches it. A rejected save is caught by the outer \<^verbatim>\<open>catch\<close>; a
  rejected mail is caught by the inner one and only logged.
\<close>

definition signup_create :: "lib \<Rightarrow> io \<Rightarrow> db \<Rightarrow> signup_req \<Rightarrow> db \<times> response" where
  "signup_create L w db r =
     (let code = generateOTP (rnd w);
          expiry = clock w + 10 * 60 * 1000;
          user = new_User (new_id db) (s_email r) (Some (s_password r)) (s_firstName r)
                   (s_lastName r) None [] (Some code) (Some expiry) False;
          registered =
            \<lparr>status = 201, success = True,
             message = ''User registered successfully. Please check your email for OTP verification.'',
             data = Registered (s_email r) (s_firstName r) (s_lastName r) False\<rparr>
      in case save_new L (salt w) db user of
           Inl e \<Rightarrow> (db, failure 500 ''Server error during signup'')
         | Inr (db', saved) \<Rightarrow>
             (case sendOTPEmail w (s_email r) (s_firstName r) code of
                Inl emailError \<Rightarrow> (db', registered)
              | Inr _ \<Rightarrow> (db', registered)))"

text \<open>The whole handler when no other request touches the store in between.\<close>

definition signup :: "lib \<Rightarrow> io \<Rightarrow> db \<Rightarrow> signup_req \<Rightarrow> db \<times> response" where
  "signup L w db r =
     (case signup_check L db r of
        Some refused \<Rightarrow> (db, refused)
      | None \<Rightarrow> signup_create L w db r)"

section \<open>POST /api/auth/verify-otp\<close>


definition verified :: "user \<Rightarrow> user" where
  "verified u = u\<lparr>isEmailVerified := True, otp := None, otpExpiry := None\<rparr>"


section \<open>POST /api/auth/login\<close>

definition login :: "lib \<Rightarrow> env \<Rightarrow> io \<Rightarrow> db \<Rightarrow> login_req \<Rightarrow> db \<times> response" where
  "login L E w db r =
     (case loginSchema L r of
        Some m \<Rightarrow> (db, failure 400 m)
      | None \<Rightarrow>
          (case findOne (\<lambda>u. email u = toLowerCase (l_email r)) db of
             None \<Rightarrow> (db, failure 401 ''Invalid credentials'')
           | Some stored \<Rightarrow>
               (let user = select_password stored
                in if \<not> isEmailVerified user
                   then (db, failure 401 ''Please verify your email before logging in'')
                   else if \<not> comparePassword L user (l_password r)
                   then (db, failure 401 ''Invalid credentials'')
                   else (case generateToken L E (clock w) user of
                           Inl e \<Rightarrow> (db, failure 500 ''Server error during login'')
                         | Inr t \<Rightarrow> (db, session ''Login successful'' t user)))))"

section \<open>POST /api/auth/google\<close>

text \<open>
  The payload of a Google ID token, and what \<^verbatim>\<open>googleClient.verifyIdToken\<close>
  followed by \<^verbatim>\<open>getPayload()\<close> gives: the call rejects, or the ticket has no
  payload, or it has one. The verifier is a parameter of the handler.
\<close>

record google_payload =
  sub :: string
  g_email :: "string option"
  given_name :: "string option"
  family_name :: "string option"
  picture :: "string option"

datatype ticket = Rejected | NoPayload | Payload google_payload

definition link :: "string \<Rightarrow> user \<Rightarrow> user" where
  "link gid u = u\<lparr>googleId := Some gid, isEmailVerified := True\<rparr>"

text \<open>
  The lookup by email or Google id and the update or creation that follows it. The
  handler has this code twice, word for word, in the development branch and in the
  production branch.
\<close>

definition linkOrCreate ::
  "lib \<Rightarrow> io \<Rightarrow> db \<Rightarrow> string \<Rightarrow> string \<Rightarrow> string \<Rightarrow> string \<Rightarrow> string option \<Rightarrow>
   store_error + (db \<times> user)" where
  "linkOrCreate L w db gid e fname lname pic =
     (case findOne (\<lambda>u. email u = toLowerCase e \<or> googleId u = Some gid) db of
        Some stored \<Rightarrow>
          (let user = select_default stored
           in if falsy (googleId user)
              then Inr (save_changes stored (link gid) db, link gid user)
              else Inr (db, user))
      | None \<Rightarrow>
          save_new L (salt w) db
            (new_User (new_id db) e None fname lname (Some gid) (or_default pic [])
               None None True))"

text \<open>
  The response after \<open>linkOrCreate\<close>. In the production branch the message tests
  \<^verbatim>\<open>user.isNew\<close>, which is false for a loaded document and false again once
  \<^verbatim>\<open>save()\<close> has resolved, so the message is always the second one.
\<close>

definition google_session ::
  "lib \<Rightarrow> env \<Rightarrow> io \<Rightarrow> db \<Rightarrow> string \<Rightarrow> store_error + (db \<times> user) \<Rightarrow> db \<times> response" where
  "google_session L E w db msg linked =
     (case linked of
        Inl e \<Rightarrow> (db, failure 500 ''Server error during Google authentication'')
      | Inr (db', user) \<Rightarrow>
          (case generateToken L E (clock w) user of
             Inl e \<Rightarrow> (db', failure 500 ''Server error during Google authentication'')
           | Inr t \<Rightarrow> (db', session msg t user)))"

definition google_mock :: "lib \<Rightarrow> env \<Rightarrow> io \<Rightarrow> db \<Rightarrow> db \<times> response" where
  "google_mock L E w db =
     google_session L E w db ''Development Google login successful''
       (linkOrCreate L w db ''dev_google_id_123'' ''test@gmail.com'' ''Test'' ''User''
          (Some ''https://ui-avatars.com/api/?name=Test+User&background=4285f4&color=fff''))"

definition google_verified ::
  "(string \<Rightarrow> ticket) \<Rightarrow> lib \<Rightarrow> env \<Rightarrow> io \<Rightarrow> db \<Rightarrow> string \<Rightarrow> db \<times> response" where
  "google_verified verifyIdToken L E w db googleToken =
     (case verifyIdToken googleToken of
        Rejected \<Rightarrow> (db, failure 500 ''Server error during Google authentication'')
      | NoPayload \<Rightarrow> (db, failure 401 ''Invalid Google token'')
      | Payload p \<Rightarrow>
          (case (g_email p, given_name p, family_name p) of
             (Some e, Some fname, Some lname) \<Rightarrow>
               if e = [] \<or> fname = [] \<or> lname = []
               then (db, failure 400 ''Incomplete Google profile information'')
               else google_session L E w db ''Login successful''
                      (linkOrCreate L w db (sub p) e fname lname (picture p))
           | _ \<Rightarrow> (db, failure 400 ''Incomplete Google profile information'')))"

definition google ::
  "(string \<Rightarrow> ticket) \<Rightarrow> lib \<Rightarrow> env \<Rightarrow> io \<Rightarrow> db \<Rightarrow> string \<Rightarrow> db \<times> response" where
  "google verifyIdToken L E w db googleToken =
     (case googleAuthSchema googleToken of
        Some m \<Rightarrow> (db, failure 400 m)
      | None \<Rightarrow>
          if googleToken = ''mock_google_token_for_development''
             \<and> NODE_ENV E = Some ''development''
          then google_mock L E w db
          else google_verified verifyIdToken L E w db googleToken)"

section \<open>POST /api/auth/resend-otp\<close>

definition resend_otp :: "io \<Rightarrow> db \<Rightarrow> string \<Rightarrow> db \<times> response" where
  "resend_otp w db e =
     (if e = [] then (db, failure 400 ''Email is required'')
      else
        (case findOne (\<lambda>u. email u = toLowerCase e \<and> isEmailVerified u = False) db of
           None \<Rightarrow> (db, failure 404 ''User not found or already verified'')
         | Some stored \<Rightarrow>
             (let user = select_default stored;
                  code = generateOTP (rnd w);
                  expiry = clock w + 10 * 60 * 1000;
                  db' = save_changes stored (\<lambda>u. u\<lparr>otp := Some code, otpExpiry := Some expiry\<rparr>) db
              in case sendOTPEmail w e (firstName user) code of
                   Inr _ \<Rightarrow>
                     (db', \<lparr>status = 200, success = True, message = ''OTP sent successfully'',
                            data = NoData\<rparr>)
                 | Inl emailError \<Rightarrow> (db', failure 500 ''Failed to send OTP email''))))"

section \<open>The authorization gate (middleware/auth.ts)\<close>

text \<open>
  The value of the \<^verbatim>\<open>Authorization\<close> header: \<open>Bearer t\<close> is the string
  \<^verbatim>\<open>'Bearer '\<close> followed by the token \<open>t\<close> (what \<^verbatim>\<open>substring(7)\<close> leaves), \<open>Other s\<close>
  is a string that does not start with \<^verbatim>\<open>'Bearer '\<close>.
\<close>

datatype authHeader = Bearer token | Other string

text \<open>
  \<open>authenticate\<close> answers with a response, or calls \<^verbatim>\<open>next()\<close> with the loaded
  document in \<^verbatim>\<open>req.user\<close>. The store is returned with the outcome, as for the
  handlers.
\<close>

definition authenticate :: "env \<Rightarrow> nat \<Rightarrow> db \<Rightarrow> authHeader option \<Rightarrow> db \<times> (response + user)" where
  "authenticate E now db header =
     (case header of
        None \<Rightarrow> (db, Inl (failure 401 ''Access denied. No token provided.''))
      | Some (Other s) \<Rightarrow> (db, Inl (failure 401 ''Access denied. No token provided.''))
      | Some (Bearer t) \<Rightarrow>
          (case verifyToken E now t of
             Inl tokenError \<Rightarrow> (db, Inl (failure 401 ''Token is not valid.''))
           | Inr decoded \<Rightarrow>
               (case findById (userId decoded) db of
                  None \<Rightarrow> (db, Inl (failure 401 ''Token is not valid - user not found.''))
                | Some stored \<Rightarrow> (db, Inr (select_default stored)))))"

section \<open>Example data\<close>

text \<open>
  An instance of the library parameters for the examples: an email is any string with
  an \<^verbatim>\<open>@\<close>, the only time span is \<^verbatim>\<open>7d\<close> (604800000 milliseconds), a hash is the
  salt, a \<^verbatim>\<open>$\<close> and the password.
\<close>

definition example_lib :: lib where
  "example_lib =
     \<lparr>isEmail = (\<lambda>s. CHR ''@'' \<in> set s),
      ms = (\<lambda>s. if s = ''7d'' then Some 604800000 else None),
      bcrypt_hash = (\<lambda>p s. s @ CHR ''$'' # p),
      bcrypt_compare = (\<lambda>p h. tl (dropWhile (\<lambda>c. c \<noteq> CHR ''$'') h) = p)\<rparr>"

text \<open>An environment with no variable set, and one in development mode.\<close>

definition unset_env :: env where
  "unset_env = \<lparr>JWT_SECRET = None, JWT_EXPIRE = None, NODE_ENV = None\<rparr>"


text \<open>
  Two stored accounts: \<open>alice\<close> signed up with a password and has a code pending
  until time 600000, \<open>bob\<close> is verified.
\<close>

definition alice :: user where
  "alice =
     \<lparr>uid = 1, email = ''alice@x.com'', password = Some ''s$secret1'', firstName = ''Alice'',
      lastName = ''A'', isEmailVerified = False, googleId = None, profilePicture = [],
      otp = Some ''123456'', otpExpiry = Some 600000\<rparr>"

definition bob :: user where
  "bob =
     \<lparr>uid = 2, email = ''bob@x.com'', password = Some ''s$secret2'', firstName = ''Bob'',
      lastName = ''B'', isEmailVerified = True, googleId = None, profilePicture = [],
      otp = None, otpExpiry = None\<rparr>"

definition example_io :: io where
  "example_io =
     \<lparr>clock = 0, rnd = \<lparr>mant = 4503603922337792, scale = 53\<rparr>, salt = ''s'', mailOk = True\<rparr>"

text \<open>
  \<open>carol\<close> signed up with a password; \<open>dave\<close> was created by a Google login of the
  subject \<^verbatim>\<open>g-1\<close>, under the address that subject had then. \<open>carol_ticket\<close> is what
  the verifier returns for a token of the same subject once its address is Carol's.
\<close>

definition carol :: user where
  "carol =
     \<lparr>uid = 1, email = ''carol@x.com'', password = Some ''s$secret3'', firstName = ''Carol'',
      lastName = ''C'', isEmailVerified = True, googleId = None, profilePicture = [],
      otp = None, otpExpiry = None\<rparr>"

definition dave :: user where
  "dave =
     \<lparr>uid = 2, email = ''dave@x.com'', password = None, firstName = ''Dave'',
      lastName = ''D'', isEmailVerified = True, googleId = Some ''g-1'', profilePicture = [],
      otp = None, otpExpiry = None\<rparr>"

definition carol_ticket :: "string \<Rightarrow> ticket" where
  "carol_ticket t =
     Payload \<lparr>sub = ''g-1'', g_email = Some ''carol@x.com'', given_name = Some ''Carol'',
              family_name = Some ''C'', picture = None\<rparr>"



section \<open>Auxiliary facts\<close>

lemma expired_iff: "(ex \<le> int (t div 1000)) = (ex * 1000 \<le> int t)"
proof -
  have "int (t div 1000) = int t div 1000" by (simp add: zdiv_int)
  moreover have "(ex \<le> (a::int) div 1000) = (ex * 1000 \<le> a)" for a by linarith
  ultimately show ?thesis by simp
qed

section \<open>The signing secret\<close>

text \<open>
  Claim C10. When \<^verbatim>\<open>JWT_SECRET\<close> is unset, the secret of the process is the literal
  \<^verbatim>\<open>default-secret\<close>: every token that \<open>generateToken\<close> issues is signed with it, and
  \<open>verifyToken\<close> accepts an unexpired token exactly when it was signed with it. So issuing
  and verifying agree on the key, and whoever knows the constant can sign a token for any
  payload that verifies.
\<close>

theorem default_secret:
  assumes "JWT_SECRET E = None"
  shows "secret E = ''default-secret''
       \<and> (generateToken L E t0 u = Inr tok \<longrightarrow> signing_key tok = Some ''default-secret'')
       \<and> verifyToken E t (JWS p ''default-secret'' iat ex)
           = (if ex \<le> int (t div 1000) then Inl TokenExpiredError else Inr p)
       \<and> (k \<noteq> ''default-secret'' \<longrightarrow>
            verifyToken E t (JWS p k iat ex) = Inl (JsonWebTokenError ''invalid signature''))"
proof -
  have s: "secret E = ''default-secret''"
    using assms by (simp add: secret_def or_default_def)
  have g: "generateToken L E t0 u = Inr tok \<longrightarrow> signing_key tok = Some ''default-secret''"
    by (auto simp: generateToken_def jwt_sign_def s Let_def split: option.splits)
  show ?thesis
    using s g by (simp add: verifyToken_def)
qed

theorem default_secret_witness:
  "JWT_SECRET unset_env = None
   \<and> generateToken example_lib unset_env 0 alice
       = Inr (JWS (JWTPayload 1 ''alice@x.com'') ''default-secret'' 0 604800)
   \<and> verifyToken unset_env 5000 (JWS (JWTPayload 2 ''bob@x.com'') ''default-secret'' 0 10)
       = Inr (JWTPayload 2 ''bob@x.com'')"
  using default_secret [of unset_env example_lib 0 alice
      "JWS (JWTPayload 1 ''alice@x.com'') ''default-secret'' 0 604800" 5000
      "JWTPayload 2 ''bob@x.com''" 0 10 "''x''"]
  by (simp add: unset_env_def generateToken_def jwt_sign_def example_lib_def alice_def
      expiresIn_def or_default_def)

section \<open>Token lifetime\<close>

text \<open>
  At the token service the three failures are not one error kind: \<open>verifyToken\<close> passes
  on what \<^verbatim>\<open>jwt.verify\<close> throws, which for an expired token, a token signed with
  another key and a malformed string are three different errors.
\<close>

theorem verifyToken_errors_differ:
  "verifyToken unset_env 604800000 (JWS (JWTPayload 1 ''alice@x.com'') ''default-secret'' 0 604800)
     = Inl TokenExpiredError
   \<and> verifyToken unset_env 0 (JWS (JWTPayload 1 ''alice@x.com'') ''other-secret'' 0 604800)
       = Inl (JsonWebTokenError ''invalid signature'')
   \<and> verifyToken unset_env 0 (Malformed ''abc'') = Inl (JsonWebTokenError ''jwt malformed'')
   \<and> distinct
        [verifyToken unset_env 604800000
           (JWS (JWTPayload 1 ''alice@x.com'') ''default-secret'' 0 604800),
         verifyToken unset_env 0 (JWS (JWTPayload 1 ''alice@x.com'') ''other-secret'' 0 604800),
         verifyToken unset_env 0 (Malformed ''abc'')]"
  by (simp add: verifyToken_def secret_def unset_env_def or_default_def malformed_message_def)

text \<open>
  Claim C4, amended. A token issued by \<open>generateToken\<close> verifies, with the claims it was
  issued for, at every time strictly before its expiry instant, and fails with the expiry
  error at every time at or after it. A token signed with another key fails with the
  signature error and a malformed string with a structure error, so \<open>verifyToken\<close>
  itself reports the three failures differently. It is the gate that collapses them:
  whatever makes \<open>verifyToken\<close> fail on a token, \<open>authenticate\<close> answers with the same
  response, 401 \<^verbatim>\<open>Token is not valid.\<close>
\<close>

theorem token_lifetime:
  assumes "generateToken L E t0 u = Inr tok"
  shows "(verifyToken E t tok = Inr (JWTPayload (uid u) (email u)) \<longleftrightarrow> int t < expiry_ms tok)
       \<and> (expiry_ms tok \<le> int t \<longrightarrow> verifyToken E t tok = Inl TokenExpiredError)
       \<and> (k \<noteq> secret E \<longrightarrow>
            verifyToken E t (JWS p k iat ex) = Inl (JsonWebTokenError ''invalid signature''))
       \<and> verifyToken E t (Malformed s) = Inl (JsonWebTokenError (malformed_message s))
       \<and> (verifyToken E t any = Inl err \<longrightarrow>
            authenticate E t db (Some (Bearer any)) = (db, Inl (failure 401 ''Token is not valid.'')))
       \<and> (expiry_ms tok \<le> int t \<longrightarrow>
            authenticate E t db (Some (Bearer tok)) = (db, Inl (failure 401 ''Token is not valid.'')))
       \<and> (k \<noteq> secret E \<longrightarrow>
            authenticate E t db (Some (Bearer (JWS p k iat ex)))
              = (db, Inl (failure 401 ''Token is not valid.'')))
       \<and> authenticate E t db (Some (Bearer (Malformed s)))
            = (db, Inl (failure 401 ''Token is not valid.''))"
proof -
  obtain m where tok: "tok = JWS (JWTPayload (uid u) (email u)) (secret E) (t0 div 1000)
      \<lfloor>real (t0 div 1000) + m / 1000\<rfloor>"
    using assms by (auto simp: generateToken_def jwt_sign_def Let_def split: option.splits)
  have a: "verifyToken E t tok = Inr (JWTPayload (uid u) (email u)) \<longleftrightarrow> int t < expiry_ms tok"
    unfolding tok verifyToken_def by (simp add: expired_iff)
  have b: "expiry_ms tok \<le> int t \<longrightarrow> verifyToken E t tok = Inl TokenExpiredError"
    unfolding tok verifyToken_def by (simp add: expired_iff)
  have c: "k \<noteq> secret E \<longrightarrow>
      verifyToken E t (JWS p k iat ex) = Inl (JsonWebTokenError ''invalid signature'')"
    by (simp add: verifyToken_def)
  have d: "verifyToken E t (Malformed s) = Inl (JsonWebTokenError (malformed_message s))"
    by (simp add: verifyToken_def)
  have e: "verifyToken E t x = Inl err \<longrightarrow>
      authenticate E t db (Some (Bearer x)) = (db, Inl (failure 401 ''Token is not valid.''))"
    for x err
    by (simp add: authenticate_def)
  from a b c d e [of any err] e [of tok TokenExpiredError]
    e [of "JWS p k iat ex" "JsonWebTokenError ''invalid signature''"]
    e [of "Malformed s" "JsonWebTokenError (malformed_message s)"]
  show ?thesis by blast
qed

theorem token_lifetime_witness:
  "generateToken example_lib unset_env 0 alice
     = Inr (JWS (JWTPayload 1 ''alice@x.com'') ''default-secret'' 0 604800)
   \<and> verifyToken unset_env 604799999 (JWS (JWTPayload 1 ''alice@x.com'') ''default-secret'' 0 604800)
       = Inr (JWTPayload 1 ''alice@x.com'')
   \<and> verifyToken unset_env 604800000 (JWS (JWTPayload 1 ''alice@x.com'') ''default-secret'' 0 604800)
       = Inl TokenExpiredError
   \<and> authenticate unset_env 604800000 [alice]
        (Some (Bearer (JWS (JWTPayload 1 ''alice@x.com'') ''default-secret'' 0 604800)))
       = ([alice], Inl (failure 401 ''Token is not valid.''))
   \<and> ''other-secret'' \<noteq> secret unset_env
   \<and> authenticate unset_env 0 [alice]
        (Some (Bearer (JWS (JWTPayload 1 ''alice@x.com'') ''other-secret'' 0 604800)))
       = ([alice], Inl (failure 401 ''Token is not valid.''))
   \<and> authenticate unset_env 0 [alice] (Some (Bearer (Malformed ''abc'')))
       = ([alice], Inl (failure 401 ''Token is not valid.''))"
proof -
  let ?tok = "JWS (JWTPayload 1 ''alice@x.com'') ''default-secret'' 0 604800"
  have g: "generateToken example_lib unset_env 0 alice = Inr ?tok"
    by (simp add: unset_env_def generateToken_def jwt_sign_def example_lib_def alice_def
        expiresIn_def secret_def or_default_def)
  have k: "''other-secret'' \<noteq> secret unset_env"
    by (simp add: secret_def unset_env_def or_default_def)
  have u: "uid alice = 1" "email alice = ''alice@x.com''"
    by (simp_all add: alice_def)
  from token_lifetime [OF g, of 604799999]
  have a: "verifyToken unset_env 604799999 ?tok = Inr (JWTPayload 1 ''alice@x.com'')"
    by (simp add: u)
  from token_lifetime [OF g, of 604800000 _ _ _ _ _ _ _ "[alice]"]
  have b: "verifyToken unset_env 604800000 ?tok = Inl TokenExpiredError"
    and c: "authenticate unset_env 604800000 [alice] (Some (Bearer ?tok))
       = ([alice], Inl (failure 401 ''Token is not valid.''))"
    by simp_all
  from token_lifetime [OF g, of 0 "''other-secret''" "JWTPayload 1 ''alice@x.com''" 0 604800
      "''abc''" _ _ "[alice]"] k
  have d: "authenticate unset_env 0 [alice]
        (Some (Bearer (JWS (JWTPayload 1 ''alice@x.com'') ''other-secret'' 0 604800)))
       = ([alice], Inl (failure 401 ''Token is not valid.''))"
    and e: "authenticate unset_env 0 [alice] (Some (Bearer (Malformed ''abc'')))
       = ([alice], Inl (failure 401 ''Token is not valid.''))"
    by simp_all
  from g a b c k d e show ?thesis by blast
qed

section \<open>Facts about the store\<close>

lemma find_updateOne_uid:
  assumes "distinct (map uid db)" and "u \<in> set db" and "\<And>v. uid (f v) = uid v"
  shows "find (\<lambda>v. uid v = uid u) (updateOne (\<lambda>v. uid v = uid u) f db) = Some (f u)"
  using assms(1,2)
proof (induction db)
  case Nil
  then show ?case by simp
next
  case (Cons a db)
  show ?case
  proof (cases "uid a = uid u")
    case True
    with Cons.prems have "a = u" by (auto simp: image_iff)
    then show ?thesis by (simp add: assms(3))
  next
    case False
    with Cons show ?thesis by auto
  qed
qed

section \<open>The authorization gate\<close>



section \<open>Verifying a one-time code\<close>


lemma findOne_None: "findOne q db = None \<longleftrightarrow> (\<forall>u \<in> set db. \<not> q u)"
  by (auto simp: findOne_def find_None_iff)

lemma findOne_Some: "findOne q db = Some u \<Longrightarrow> u \<in> set db \<and> q u"
  by (auto simp: findOne_def find_Some_iff)




section \<open>Login failures\<close>

lemma comparePassword_select: "comparePassword L (select_password u) pw = comparePassword L u pw"
  by (simp add: comparePassword_def select_password_def)

text \<open>
  The three failures of a login are not all alike: for an account that is not verified,
  given its correct password, the handler answers with a message of its own, which the
  answer for an unknown email does not carry.
\<close>

theorem login_unverified_distinguished:
  "isEmailVerified alice = False
   \<and> comparePassword example_lib alice ''secret1'' = True
   \<and> login example_lib unset_env example_io [alice, bob]
         \<lparr>l_email = ''alice@x.com'', l_password = ''secret1''\<rparr>
       = ([alice, bob], failure 401 ''Please verify your email before logging in'')
   \<and> login example_lib unset_env example_io [alice, bob]
         \<lparr>l_email = ''nobody@x.com'', l_password = ''secret1''\<rparr>
       = ([alice, bob], failure 401 ''Invalid credentials'')
   \<and> login example_lib unset_env example_io [alice, bob]
         \<lparr>l_email = ''alice@x.com'', l_password = ''secret1''\<rparr>
       \<noteq> login example_lib unset_env example_io [alice, bob]
           \<lparr>l_email = ''nobody@x.com'', l_password = ''secret1''\<rparr>"
proof -
  have lc: "toLowerCase ''alice@x.com'' = ''alice@x.com''"
    "toLowerCase ''nobody@x.com'' = ''nobody@x.com''"
    by code_simp+
  have a: "login example_lib unset_env example_io [alice, bob]
         \<lparr>l_email = ''alice@x.com'', l_password = ''secret1''\<rparr>
       = ([alice, bob], failure 401 ''Please verify your email before logging in'')"
    by (simp add: login_def loginSchema_def notEmpty_def validEmail_def example_lib_def lc
        findOne_def alice_def bob_def select_password_def)
  have b: "login example_lib unset_env example_io [alice, bob]
         \<lparr>l_email = ''nobody@x.com'', l_password = ''secret1''\<rparr>
       = ([alice, bob], failure 401 ''Invalid credentials'')"
    by (simp add: login_def loginSchema_def notEmpty_def validEmail_def example_lib_def lc
        findOne_def alice_def bob_def select_password_def)
  have c: "comparePassword example_lib alice ''secret1'' = True"
    by (simp add: comparePassword_def example_lib_def alice_def)
  have d: "isEmailVerified alice = False"
    by (simp add: alice_def)
  show ?thesis
    unfolding a b using c d by (simp add: failure_def)
qed

text \<open>
  Claim C2, amended. A login that passes \<^verbatim>\<open>loginSchema\<close> fails with status 401 in all
  three cases. For an unknown email and for a verified account with a wrong password the
  response is the same, 401 \<^verbatim>\<open>Invalid credentials\<close>. For an account that is not verified
  the response is 401 \<^verbatim>\<open>Please verify your email before logging in\<close>, whatever the
  password. The store is unchanged in every case.
\<close>

theorem login_failures:
  assumes "loginSchema L r = None"
  shows "((\<forall>u \<in> set db. email u \<noteq> toLowerCase (l_email r)) \<longrightarrow>
            login L E w db r = (db, failure 401 ''Invalid credentials''))
       \<and> (findOne (\<lambda>u. email u = toLowerCase (l_email r)) db = Some stored \<longrightarrow>
            (\<not> isEmailVerified stored \<longrightarrow>
               login L E w db r = (db, failure 401 ''Please verify your email before logging in''))
          \<and> (isEmailVerified stored \<and> \<not> comparePassword L stored (l_password r) \<longrightarrow>
               login L E w db r = (db, failure 401 ''Invalid credentials'')))
       \<and> status (failure 401 ''Invalid credentials'') = 401
       \<and> status (failure 401 ''Please verify your email before logging in'') = 401"
proof -
  have a: "login L E w db r = (db, failure 401 ''Invalid credentials'')"
    if "\<forall>u \<in> set db. email u \<noteq> toLowerCase (l_email r)"
  proof -
    from that have "findOne (\<lambda>u. email u = toLowerCase (l_email r)) db = None"
      by (simp add: findOne_None)
    then show ?thesis using assms by (simp add: login_def)
  qed
  have b: "login L E w db r = (db, failure 401 ''Please verify your email before logging in'')"
    if "findOne (\<lambda>u. email u = toLowerCase (l_email r)) db = Some stored"
      and "\<not> isEmailVerified stored"
    using assms that by (simp add: login_def Let_def select_password_def)
  have c: "login L E w db r = (db, failure 401 ''Invalid credentials'')"
    if "findOne (\<lambda>u. email u = toLowerCase (l_email r)) db = Some stored"
      and "isEmailVerified stored" and "\<not> comparePassword L stored (l_password r)"
    using assms that
    by (simp add: login_def Let_def comparePassword_select) (simp add: select_password_def)
  from a b c show ?thesis by (auto simp: failure_def)
qed

theorem login_failures_witness:
  "loginSchema example_lib \<lparr>l_email = ''bob@x.com'', l_password = ''wrong''\<rparr> = None
   \<and> findOne (\<lambda>u. email u = toLowerCase ''bob@x.com'') [alice, bob] = Some bob
   \<and> isEmailVerified bob \<and> \<not> comparePassword example_lib bob ''wrong''
   \<and> login example_lib unset_env example_io [alice, bob]
        \<lparr>l_email = ''bob@x.com'', l_password = ''wrong''\<rparr>
       = ([alice, bob], failure 401 ''Invalid credentials'')"
proof -
  have h: "loginSchema example_lib \<lparr>l_email = ''bob@x.com'', l_password = ''wrong''\<rparr> = None"
    by (simp add: loginSchema_def notEmpty_def validEmail_def example_lib_def)
  have lc: "toLowerCase ''bob@x.com'' = ''bob@x.com''"
    by code_simp
  have f: "findOne (\<lambda>u. email u = toLowerCase ''bob@x.com'') [alice, bob] = Some bob"
    by (simp add: lc findOne_def alice_def bob_def)
  have c: "isEmailVerified bob \<and> \<not> comparePassword example_lib bob ''wrong''"
    by (simp add: comparePassword_def example_lib_def bob_def)
  show ?thesis
    using h f c login_failures [OF h, of "[alice, bob]" unset_env example_io bob]
    by simp
qed

section \<open>Signing up twice\<close>

lemma email_pre_save: "email (pre_save L s d) = email d"
  by (simp add: pre_save_def split: option.splits)

lemma save_new_Inr:
  assumes "save_new L s db d = Inr (db', d')"
  shows "db' = db @ [d']" and "d' = pre_save L s d" and "validate d"
    and "\<forall>u \<in> set db. email u \<noteq> email d"
  using assms by (auto simp: save_new_def Let_def email_pre_save split: if_splits)

lemma signup_create_201:
  assumes "signup_create L w db r = (db', resp)" and "status resp = 201"
  shows "\<exists>d'. save_new L (salt w) db
           (new_User (new_id db) (s_email r) (Some (s_password r)) (s_firstName r) (s_lastName r)
              None [] (Some (generateOTP (rnd w))) (Some (clock w + 10 * 60 * 1000)) False)
         = Inr (db', d')"
  using assms
  by (auto simp: signup_create_def Let_def failure_def split: sum.splits prod.splits)

lemma signup_create_stored:
  assumes "signup_create L w db r = (db', resp)" and "status resp = 201"
  shows "\<exists>d'. db' = db @ [d'] \<and> email d' = toLowerCase (s_email r)
           \<and> isEmailVerified d' = False
           \<and> otp d' = Some (generateOTP (rnd w))
           \<and> otpExpiry d' = Some (clock w + 600000)
           \<and> (\<forall>u \<in> set db. email u \<noteq> toLowerCase (s_email r))"
proof -
  from signup_create_201 [OF assms] obtain d' where
    s: "save_new L (salt w) db
           (new_User (new_id db) (s_email r) (Some (s_password r)) (s_firstName r) (s_lastName r)
              None [] (Some (generateOTP (rnd w))) (Some (clock w + 10 * 60 * 1000)) False)
         = Inr (db', d')" by blast
  from save_new_Inr [OF s] show ?thesis
    by (auto simp: new_User_def pre_save_def split: if_splits)
qed

text \<open>
  Claim C3 says that the second of two signups with the same email always fails with the
  400 of a duplicate email, whatever the timing. The handler answers a duplicate that
  its own check finds with that 400, but not one that only the store finds. Here two
  signups with the same email both run their existence check before either saves: both
  checks pass on the empty store, the first save creates the account with status 201, and
  the second save is rejected by the unique index. The rejection falls into the outer
  \<^verbatim>\<open>catch\<close>, and the second request is answered with status 500,
  \<^verbatim>\<open>Server error during signup\<close>.
\<close>

theorem signup_race_server_error:
  "signup_check example_lib []
     \<lparr>s_email = ''carol@x.com'', s_password = ''secret1'', s_firstName = ''Carol'', s_lastName = ''C''\<rparr>
     = None
   \<and> status (snd (signup_create example_lib example_io []
        \<lparr>s_email = ''carol@x.com'', s_password = ''secret1'', s_firstName = ''Carol'', s_lastName = ''C''\<rparr>))
     = 201
   \<and> snd (signup_create example_lib example_io
        (fst (signup_create example_lib example_io []
           \<lparr>s_email = ''carol@x.com'', s_password = ''secret1'', s_firstName = ''Carol'', s_lastName = ''C''\<rparr>))
        \<lparr>s_email = ''carol@x.com'', s_password = ''secret1'', s_firstName = ''Carol'', s_lastName = ''C''\<rparr>)
     = failure 500 ''Server error during signup''"
proof -
  let ?r = "\<lparr>s_email = ''carol@x.com'', s_password = ''secret1'', s_firstName = ''Carol'',
             s_lastName = ''C''\<rparr>"
  have lc: "toLowerCase ''carol@x.com'' = ''carol@x.com''" by code_simp
  have tr: "trim ''Carol'' = ''Carol''" "trim ''C'' = ''C''" by code_simp+
  have re: "test emailPattern ''carol@x.com''" by code_simp
  have v: "validate (new_User i ''carol@x.com'' (Some ''secret1'') ''Carol'' ''C'' None [] c e False)"
    for i c e
    by (simp add: validate_def new_User_def lc tr re)
  have chk: "signup_check example_lib [] ?r = None"
    by (simp add: signup_check_def signupSchema_def notEmpty_def validEmail_def minLength_def
        maxLength_def example_lib_def findOne_def)
  obtain d where c1: "signup_create example_lib example_io [] ?r
      = ([d], \<lparr>status = 201, success = True,
             message = ''User registered successfully. Please check your email for OTP verification.'',
             data = Registered ''carol@x.com'' ''Carol'' ''C'' False\<rparr>)"
      and d: "email d = ''carol@x.com''"
    by (simp add: signup_create_def Let_def save_new_def v sendOTPEmail_def email_pre_save)
       (simp add: new_User_def lc)
  have c2: "signup_create example_lib example_io [d] ?r
      = ([d], failure 500 ''Server error during signup'')"
    by (simp add: signup_create_def Let_def save_new_def v email_pre_save d)
       (simp add: new_User_def lc)
  show ?thesis
    by (simp add: chk c1 c2)
qed

text \<open>
  What does hold: once a signup has created an account, a second valid signup with the
  same email never succeeds and never adds an account. When its existence check runs
  after the first save it is refused with 400 \<^verbatim>\<open>User already exists with this email\<close>;
  when its check ran before the first save, its own save is rejected and the store stays
  as the first signup left it, with exactly one account for that email.
\<close>

lemma signup_duplicate_refused:
  assumes "signup_create L w1 db r1 = (db1, resp1)" and "status resp1 = 201"
    and "toLowerCase (s_email r2) = toLowerCase (s_email r1)"
    and "signupSchema L r2 = None"
  shows "signup L w2 db1 r2 = (db1, failure 400 ''User already exists with this email'')
       \<and> signup_create L w2 db1 r2 = (db1, failure 500 ''Server error during signup'')
       \<and> length (filter (\<lambda>u. email u = toLowerCase (s_email r1)) db1) = 1"
proof -
  from signup_create_stored [OF assms(1,2)] obtain d where
    db1: "db1 = db @ [d]" and d: "email d = toLowerCase (s_email r1)"
    and fresh: "\<forall>u \<in> set db. email u \<noteq> toLowerCase (s_email r1)"
    by blast
  have mem: "\<exists>u \<in> set db1. email u = toLowerCase (s_email r2)"
    using db1 d assms(3) by simp
  then obtain x where "findOne (\<lambda>u. email u = toLowerCase (s_email r2)) db1 = Some x"
    by (cases "findOne (\<lambda>u. email u = toLowerCase (s_email r2)) db1") (auto simp: findOne_None)
  then have a: "signup L w2 db1 r2 = (db1, failure 400 ''User already exists with this email'')"
    using assms(4) by (simp add: signup_def signup_check_def)
  have "\<And>i pw f l c e. save_new L (salt w2) db1 (new_User i (s_email r2) pw f l None [] c e False)
      \<noteq> Inr y" for y
    using mem by (auto simp: save_new_def Let_def email_pre_save new_User_def)
  then have b: "signup_create L w2 db1 r2 = (db1, failure 500 ''Server error during signup'')"
    by (auto simp: signup_create_def Let_def split: sum.splits)
  have c: "length (filter (\<lambda>u. email u = toLowerCase (s_email r1)) db1) = 1"
    using fresh d by (simp add: db1 filter_empty_conv [THEN iffD2])
  from a b c show ?thesis by simp
qed

lemma signup_duplicate_refused_example:
  "status (snd (signup_create example_lib example_io []
       \<lparr>s_email = ''carol@x.com'', s_password = ''secret1'', s_firstName = ''Carol'', s_lastName = ''C''\<rparr>))
     = 201
   \<and> signupSchema example_lib
       \<lparr>s_email = ''Carol@X.com'', s_password = ''secret2'', s_firstName = ''Caroline'', s_lastName = ''D''\<rparr>
     = None
   \<and> snd (signup example_lib example_io
        (fst (signup_create example_lib example_io []
           \<lparr>s_email = ''carol@x.com'', s_password = ''secret1'', s_firstName = ''Carol'', s_lastName = ''C''\<rparr>))
        \<lparr>s_email = ''Carol@X.com'', s_password = ''secret2'', s_firstName = ''Caroline'', s_lastName = ''D''\<rparr>)
     = failure 400 ''User already exists with this email''"
proof -
  let ?r1 = "\<lparr>s_email = ''carol@x.com'', s_password = ''secret1'', s_firstName = ''Carol'',
              s_lastName = ''C''\<rparr>"
  let ?r2 = "\<lparr>s_email = ''Carol@X.com'', s_password = ''secret2'', s_firstName = ''Caroline'',
              s_lastName = ''D''\<rparr>"
  have lc: "toLowerCase ''carol@x.com'' = ''carol@x.com''"
    "toLowerCase ''Carol@X.com'' = ''carol@x.com''" by code_simp+
  have tr: "trim ''Carol'' = ''Carol''" "trim ''C'' = ''C''" by code_simp+
  have re: "test emailPattern ''carol@x.com''" by code_simp
  have s201: "status (snd (signup_create example_lib example_io [] ?r1)) = 201"
    by (simp add: signup_create_def Let_def save_new_def sendOTPEmail_def validate_def
        new_User_def lc tr re)
  have v2: "signupSchema example_lib ?r2 = None"
    by (simp add: signupSchema_def notEmpty_def validEmail_def minLength_def maxLength_def
        example_lib_def)
  have same: "toLowerCase (s_email ?r2) = toLowerCase (s_email ?r1)"
    by (simp add: lc)
  have pair: "signup_create example_lib example_io [] ?r1
      = (fst (signup_create example_lib example_io [] ?r1),
         snd (signup_create example_lib example_io [] ?r1))" by simp
  show ?thesis
    using s201 v2 signup_duplicate_refused [OF pair s201 same v2, of example_io]
    by simp
qed

section \<open>Issuing a one-time code\<close>

lemma toString_nat_small: "n < 10 \<Longrightarrow> toString_nat n = [digit n]"
  by (subst toString_nat.simps) simp

lemma toString_nat_big:
  "\<not> n < 10 \<Longrightarrow> toString_nat n = toString_nat (n div 10) @ [digit (n mod 10)]"
  by (subst toString_nat.simps) simp

lemma isDigit_digit: "d < 10 \<Longrightarrow> isDigit (digit d)"
proof -
  assume "d < 10"
  then have "d \<in> {0, 1, 2, 3, 4, 5, 6, 7, 8, 9}" by auto
  then show ?thesis by (auto simp: digit_def isDigit_def)
qed

lemma toString_nat_digits: "\<forall>c \<in> set (toString_nat n). isDigit c"
proof (induction n rule: toString_nat.induct)
  case (1 n)
  show ?case
  proof (cases "n < 10")
    case True
    then show ?thesis by (simp add: toString_nat_small isDigit_digit)
  next
    case False
    with 1 show ?thesis by (simp add: toString_nat_big isDigit_digit)
  qed
qed

lemma toString_nat_length:
  "10 ^ k \<le> n \<Longrightarrow> n < 10 ^ Suc k \<Longrightarrow> length (toString_nat n) = Suc k"
proof (induction k arbitrary: n)
  case 0
  then show ?case by (simp add: toString_nat_small)
next
  case (Suc k)
  from Suc.prems have big: "\<not> n < 10"
  proof -
    have "(10::nat) \<le> 10 ^ Suc k" by simp
    with Suc.prems(1) show ?thesis by linarith
  qed
  have lo: "10 ^ k \<le> n div 10"
    using Suc.prems(1) by (simp add: less_eq_div_iff_mult_less_eq mult.commute)
  have hi: "n div 10 < 10 ^ Suc k"
    using Suc.prems(2) by (simp add: div_less_iff_less_mult mult.commute)
  from Suc.IH [OF lo hi] big show ?case
    by (simp add: toString_nat_big)
qed

lemma of_char_digit: "d < 10 \<Longrightarrow> (of_char (digit d) :: nat) - 48 = d"
proof -
  assume "d < 10"
  then have "d \<in> {0, 1, 2, 3, 4, 5, 6, 7, 8, 9}" by auto
  then show ?thesis by (auto simp: digit_def)
qed

lemma decimal_value_snoc:
  "decimal_value (s @ [c]) = 10 * decimal_value s + ((of_char c :: nat) - 48)"
  by (simp add: decimal_value_def)

lemma decimal_value_toString_nat: "decimal_value (toString_nat n) = n"
proof (induction n rule: toString_nat.induct)
  case (1 n)
  show ?case
  proof (cases "n < 10")
    case True
    then show ?thesis
      by (simp add: toString_nat_small decimal_value_def of_char_digit)
  next
    case False
    with 1 show ?thesis
      by (simp add: toString_nat_big decimal_value_snoc of_char_digit)
  qed
qed

subsection \<open>Rounding\<close>

lemma bits_0: "bits 0 = 0"
  by (subst bits.simps) simp

lemma bits_pos: "0 < n \<Longrightarrow> bits n = Suc (bits (n div 2))"
  by (subst bits.simps) simp

lemma bits_upper: "n < 2 ^ bits n"
proof (induction n rule: bits.induct)
  case (1 n)
  show ?case
  proof (cases "n = 0")
    case True
    then show ?thesis by simp
  next
    case False
    with 1 have "n div 2 < 2 ^ bits (n div 2)" by simp
    then have "n < 2 * 2 ^ bits (n div 2)" by linarith
    with False show ?thesis by (simp add: bits_pos)
  qed
qed

lemma bits_lower: "0 < n \<Longrightarrow> 2 ^ (bits n - 1) \<le> n"
proof (induction n rule: bits.induct)
  case (1 n)
  show ?case
  proof (cases "n div 2 = 0")
    case True
    with 1 have "n = 1" by (cases n) auto
    then show ?thesis by (simp add: bits_pos bits_0)
  next
    case False
    with 1 have "2 ^ (bits (n div 2) - 1) \<le> n div 2" by simp
    moreover from False have "0 < bits (n div 2)" by (simp add: bits_pos)
    ultimately have "2 ^ bits (n div 2) \<le> 2 * (n div 2)"
      by (cases "bits (n div 2)") auto
    then have "2 ^ bits (n div 2) \<le> n" by linarith
    with 1 show ?thesis by (simp add: bits_pos)
  qed
qed

lemma bits_le: "n < 2 ^ k \<Longrightarrow> bits n \<le> k"
proof (rule ccontr)
  assume n: "n < 2 ^ k" and "\<not> bits n \<le> k"
  then have k: "k \<le> bits n - 1" and pos: "0 < n"
    by (auto simp: bits_0 intro: gr0I)
  from bits_lower [OF pos] have "(2::nat) ^ k \<le> n"
    using k power_increasing [of k "bits n - 1" "2::nat"] by linarith
  with n show False by simp
qed

lemma bits_gt: "2 ^ k \<le> n \<Longrightarrow> k < bits n"
proof (rule ccontr)
  assume n: "2 ^ k \<le> n" and "\<not> k < bits n"
  then have "bits n \<le> k" by simp
  then have "(2::nat) ^ bits n \<le> 2 ^ k" by (simp add: power_increasing)
  with bits_upper [of n] n show False by linarith
qed

lemma bits_eq: "2 ^ k \<le> n \<Longrightarrow> n < 2 ^ Suc k \<Longrightarrow> bits n = Suc k"
  using bits_le [of n "Suc k"] bits_gt [of k n] by linarith

lemma nearest_cases:
  "n = n div 2 ^ s * 2 ^ s + n mod 2 ^ s \<and> n mod 2 ^ s < (2::nat) ^ s
   \<and> ((nearest s n = n div 2 ^ s * 2 ^ s \<and> 2 * (n mod 2 ^ s) \<le> 2 ^ s)
        \<or> (nearest s n = n div 2 ^ s * 2 ^ s + 2 ^ s \<and> 2 ^ s \<le> 2 * (n mod 2 ^ s)))"
proof -
  have "n = n div 2 ^ s * 2 ^ s + n mod 2 ^ s"
    using div_mult_mod_eq [of n "2 ^ s"] by simp
  moreover have "n mod 2 ^ s < (2::nat) ^ s" by simp
  moreover have "(nearest s n = n div 2 ^ s * 2 ^ s \<and> 2 * (n mod 2 ^ s) \<le> 2 ^ s)
        \<or> (nearest s n = n div 2 ^ s * 2 ^ s + 2 ^ s \<and> 2 ^ s \<le> 2 * (n mod 2 ^ s))"
    unfolding nearest_def Let_def by (simp add: algebra_simps)
  ultimately show ?thesis by blast
qed

lemma nearest_ge:
  assumes "2 ^ s dvd A" and "A \<le> n"
  shows "A \<le> nearest s n"
proof -
  let ?P = "(2::nat) ^ s"
  from assms(1) obtain a where A: "A = a * ?P" by (auto simp: mult.commute)
  have "a \<le> n div ?P"
    using assms(2) by (simp add: A less_eq_div_iff_mult_less_eq)
  then have "a * ?P \<le> (n div ?P) * ?P" by (rule mult_le_mono1)
  moreover have "(n div ?P) * ?P \<le> nearest s n"
    using nearest_cases [of n s] by auto
  ultimately show ?thesis unfolding A by (rule le_trans)
qed

lemma nearest_le:
  assumes "2 ^ s dvd A" and "2 * n < 2 * A + 2 ^ s"
  shows "nearest s n \<le> A"
proof -
  let ?P = "(2::nat) ^ s"
  let ?q = "n div ?P" and ?r = "n mod ?P"
  from assms(1) obtain a where A: "A = a * ?P" by (auto simp: mult.commute)
  from nearest_cases [of n s] have n: "n = ?q * ?P + ?r" and r: "?r < ?P"
    and c: "(nearest s n = ?q * ?P \<and> 2 * ?r \<le> ?P) \<or> (nearest s n = ?q * ?P + ?P \<and> ?P \<le> 2 * ?r)"
    by blast+
  show ?thesis
  proof (cases "?q < a")
    case True
    then have "Suc ?q \<le> a" by simp
    then have "Suc ?q * ?P \<le> a * ?P" by (rule mult_le_mono1)
    then have "?q * ?P + ?P \<le> A" by (simp add: A)
    with c show ?thesis by linarith
  next
    case False
    then have "a \<le> ?q" by simp
    then have le: "a * ?P \<le> ?q * ?P" by (rule mult_le_mono1)
    have "?q = a"
    proof (rule ccontr)
      assume "?q \<noteq> a"
      with \<open>a \<le> ?q\<close> have "Suc a \<le> ?q" by simp
      then have "Suc a * ?P \<le> ?q * ?P" by (rule mult_le_mono1)
      then have "A + ?P \<le> n" using n by (simp add: A)
      with assms(2) show False by linarith
    qed
    then have "n = A + ?r" using n by (simp add: A)
    with assms(2) have "2 * ?r < ?P" by linarith
    with c \<open>?q = a\<close> show ?thesis by (auto simp: A)
  qed
qed

lemma nearest_upper: "2 * nearest s n \<le> 2 * n + 2 ^ s"
  using nearest_cases [of n s] by linarith

lemma nearest_lower: "2 * n \<le> 2 * nearest s n + 2 ^ s"
  using nearest_cases [of n s] by linarith

lemma dvd_pow2_mult: "s \<le> k \<Longrightarrow> (2::nat) ^ s dvd c * 2 ^ k"
  by (simp add: le_imp_power_dvd)

lemma pow2_split: "a \<le> j \<Longrightarrow> (x::'a::monoid_mult) ^ j = x ^ a * x ^ (j - a)"
  by (simp flip: power_add)

lemma below_half: "a \<le> b \<Longrightarrow> 0 < c \<Longrightarrow> 2 * a < 2 * b + (c::nat)"
  by linarith

lemma two_roundings_upper:
  fixes S K p X c R :: nat
  assumes "2 * S \<le> 2 * (K + p) + R" and "2 * p \<le> 2 * X + c" and "c \<le> R"
  shows "S \<le> K + X + R"
  using assms by presburger

lemma two_roundings_lower:
  fixes S K p X c R :: nat
  assumes "2 * (K + p) \<le> 2 * S + R" and "2 * X \<le> 2 * p + c" and "c \<le> R"
  shows "K + X \<le> S + R"
  using assms by presburger

lemma otp_rounding:
  assumes m: "m < 2 ^ 53" and j: "53 \<le> j"
  defines "R \<equiv> (2::nat) ^ (j - 33)"
  defines "p \<equiv> roundTo53 (m * 900000)"
  defines "S \<equiv> roundTo53 (100000 * 2 ^ j + p)"
  shows "100000 * 2 ^ j \<le> S" and "S < 1000000 * 2 ^ j"
    and "S \<le> 100000 * 2 ^ j + m * 900000 + R" and "100000 * 2 ^ j + m * 900000 \<le> S + R"
proof -
  define Q where "Q = (2::nat) ^ (j - 53)"
  have Qpos: "1 \<le> Q" by (simp add: Q_def)
  have "(2::nat) ^ (j - 33) = 2 ^ 20 * 2 ^ (j - 33 - 20)"
    by (rule pow2_split) (use j in linarith)
  then have R: "R = 1048576 * Q" by (simp add: R_def Q_def)
  have "(2::nat) ^ j = 2 ^ 33 * 2 ^ (j - 33)"
    by (rule pow2_split) (use j in linarith)
  then have P33: "(2::nat) ^ j = 8589934592 * R" by (simp add: R_def)
  let ?X = "m * 900000"
  let ?sX = "bits ?X - 53"
  have Xmax: "?X \<le> 9007199254740991 * 900000" using m by simp
  then have "?X < 2 ^ 73" by simp
  then have sX: "?sX \<le> 20" using bits_le [of ?X 73] by simp
  then have pX: "(2::nat) ^ ?sX \<le> 1048576"
    using power_increasing [of ?sX 20 "2::nat"] by simp
  let ?U = "7730941132799999 * R"
  have dU: "2 ^ ?sX dvd ?U"
    unfolding R_def by (rule dvd_pow2_mult) (use sX j in linarith)
  have "2 * ?X < 2 * ?U + 2 ^ ?sX"
  proof (cases "j = 53")
    case True
    then have R53: "R = 1048576" by (simp add: R_def)
    show ?thesis
    proof (cases "?X \<le> ?U")
      case True
      then show ?thesis by (rule below_half) simp
    next
      case False
      then have "2 ^ 72 \<le> ?X" by (simp add: R53)
      then have "72 < bits ?X" by (rule bits_gt)
      moreover from \<open>?X < 2 ^ 73\<close> have "bits ?X \<le> 73" by (rule bits_le)
      ultimately have "?sX = 20" by simp
      then show ?thesis using Xmax by (simp add: R53)
    qed
  next
    case False
    with j have "54 \<le> j" by simp
    then have "(2::nat) ^ 21 \<le> 2 ^ (j - 33)" by (intro power_increasing) simp_all
    then have "2097152 \<le> R" by (simp add: R_def)
    with Xmax have "?X \<le> ?U" by linarith
    then show ?thesis by (rule below_half) simp
  qed
  from nearest_le [OF dU this] have pU: "p \<le> ?U" by (simp add: p_def roundTo53_def)
  have pe: "2 * p \<le> 2 * ?X + 1048576" "2 * ?X \<le> 2 * p + 1048576"
    unfolding p_def roundTo53_def
    using nearest_upper [of ?sX ?X] nearest_lower [of ?X ?sX] pX by linarith+
  let ?T = "100000 * 2 ^ j + p"
  let ?sT = "bits ?T - 53"
  have TV: "?T \<le> 8589934591999999 * R" using pU by (simp add: P33)
  moreover have Rpos: "0 < R" by (simp add: R_def)
  moreover have "(2::nat) ^ (j + 20) = 1048576 * (8589934592 * R)"
    by (simp add: power_add flip: P33)
  ultimately have "?T < 2 ^ (j + 20)" by linarith
  then have "bits ?T \<le> j + 20" by (rule bits_le)
  then have sT: "?sT \<le> j - 33" using j by linarith
  then have pT: "(2::nat) ^ ?sT \<le> R"
    unfolding R_def by (intro power_increasing) simp_all
  have d1: "2 ^ ?sT dvd 100000 * (2::nat) ^ j"
    by (rule dvd_pow2_mult) (use sT in linarith)
  have d2: "2 ^ ?sT dvd 8589934591999999 * R"
    unfolding R_def by (rule dvd_pow2_mult) (rule sT)
  from nearest_ge [OF d1, of ?T] show "100000 * 2 ^ j \<le> S"
    by (simp add: S_def roundTo53_def)
  have "2 * ?T < 2 * (8589934591999999 * R) + 2 ^ ?sT"
    using TV by (rule below_half) simp
  from nearest_le [OF d2 this] have "S \<le> 8589934591999999 * R"
    by (simp add: S_def roundTo53_def)
  with Rpos show "S < 1000000 * 2 ^ j" unfolding P33 by linarith
  have Se: "2 * S \<le> 2 * ?T + R" "2 * ?T \<le> 2 * S + R"
    unfolding S_def roundTo53_def
    using nearest_upper [of ?sT ?T] nearest_lower [of ?T ?sT] pT by linarith+
  have "1048576 \<le> R" using Qpos by (simp add: R)
  then show "S \<le> 100000 * 2 ^ j + m * 900000 + R"
    by (rule two_roundings_upper [OF Se(1) pe(1)])
  from \<open>1048576 \<le> R\<close> show "100000 * 2 ^ j + m * 900000 \<le> S + R"
    by (rule two_roundings_lower [OF Se(2) pe(2)])
qed

lemma otpNumber_range:
  assumes "isRandom d"
  shows "100000 \<le> otpNumber d" and "otpNumber d \<le> 999999"
proof -
  from assms have m: "mant d < 2 ^ 53" and j: "53 \<le> scale d"
    by (simp_all add: isRandom_def)
  let ?S = "roundTo53 (100000 * 2 ^ scale d + roundTo53 (mant d * 900000))"
  from otp_rounding(1) [OF m j] have "100000 \<le> ?S div 2 ^ scale d"
    by (simp add: less_eq_div_iff_mult_less_eq)
  then show "100000 \<le> otpNumber d" by (simp add: otpNumber_def)
  from otp_rounding(2) [OF m j] have "?S div 2 ^ scale d < 1000000"
    by (simp add: div_less_iff_less_mult)
  then show "otpNumber d \<le> 999999" by (simp add: otpNumber_def)
qed

lemma otpNumber_floor:
  assumes "isRandom d"
  obtains y :: real where "otpNumber d = \<lfloor>y\<rfloor>"
    and "y \<le> 100000 + 900000 * value_of d + 1 / 2 ^ 33"
    and "100000 + 900000 * value_of d \<le> y + 1 / 2 ^ 33"
proof -
  from assms have m: "mant d < 2 ^ 53" and j: "53 \<le> scale d"
    by (simp_all add: isRandom_def)
  let ?j = "scale d"
  let ?S = "roundTo53 (100000 * 2 ^ ?j + roundTo53 (mant d * 900000))"
  let ?P = "(2::real) ^ ?j"
  have P: "0 < ?P" by simp
  have "?P = 2 ^ 33 * 2 ^ (?j - 33)"
    by (rule pow2_split) (use j in linarith)
  then have R: "real ((2::nat) ^ (?j - 33)) = ?P / 2 ^ 33"
    by simp
  have fl: "otpNumber d = \<lfloor>real ?S / ?P\<rfloor>"
    using floor_divide_of_nat_eq [of ?S "2 ^ ?j", where ?'a = real]
    by (simp add: otpNumber_def)
  from otp_rounding(3) [OF m j]
  have "real ?S \<le> real (100000 * 2 ^ ?j + mant d * 900000 + 2 ^ (?j - 33))"
    by (rule of_nat_mono)
  then have "real ?S \<le> 100000 * ?P + 900000 * real (mant d) + ?P / 2 ^ 33"
    using R by simp
  then have "real ?S / ?P \<le> (100000 * ?P + 900000 * real (mant d) + ?P / 2 ^ 33) / ?P"
    using P by (simp add: divide_right_mono)
  then have u: "real ?S / ?P \<le> 100000 + 900000 * value_of d + 1 / 2 ^ 33"
    by (simp add: value_of_def add_divide_distrib)
  from otp_rounding(4) [OF m j]
  have "real (100000 * 2 ^ ?j + mant d * 900000) \<le> real (?S + 2 ^ (?j - 33))"
    by (rule of_nat_mono)
  then have "100000 * ?P + 900000 * real (mant d) \<le> real ?S + ?P / 2 ^ 33"
    using R by simp
  then have "(100000 * ?P + 900000 * real (mant d)) / ?P \<le> (real ?S + ?P / 2 ^ 33) / ?P"
    using P by (simp add: divide_right_mono)
  then have l: "100000 + 900000 * value_of d \<le> real ?S / ?P + 1 / 2 ^ 33"
    by (simp add: value_of_def add_divide_distrib)
  from fl u l show ?thesis by (rule that)
qed

lemma otpNumber_near:
  assumes "isRandom d"
  shows "otpNumber d = n \<Longrightarrow>
           real_of_int n - 100000 - 1 / 2 ^ 33 \<le> 900000 * value_of d
           \<and> 900000 * value_of d < real_of_int n - 99999 + 1 / 2 ^ 33"
    and "real_of_int n - 100000 + 1 / 2 ^ 33 \<le> 900000 * value_of d
           \<and> 900000 * value_of d < real_of_int n - 99999 - 1 / 2 ^ 33 \<Longrightarrow> otpNumber d = n"
proof -
  from otpNumber_floor [OF assms] obtain y :: real where fl: "otpNumber d = \<lfloor>y\<rfloor>"
    and u: "y \<le> 100000 + 900000 * value_of d + 1 / 2 ^ 33"
    and l: "100000 + 900000 * value_of d \<le> y + 1 / 2 ^ 33" by blast
  show "real_of_int n - 100000 - 1 / 2 ^ 33 \<le> 900000 * value_of d
           \<and> 900000 * value_of d < real_of_int n - 99999 + 1 / 2 ^ 33" if "otpNumber d = n"
  proof -
    from that fl have "real_of_int n \<le> y" "y < real_of_int n + 1"
      by (simp_all add: floor_eq_iff [THEN iffD1])
    with u l show ?thesis by linarith
  qed
  show "otpNumber d = n" if "real_of_int n - 100000 + 1 / 2 ^ 33 \<le> 900000 * value_of d
           \<and> 900000 * value_of d < real_of_int n - 99999 - 1 / 2 ^ 33"
  proof -
    from that u l have "real_of_int n \<le> y" "y < real_of_int n + 1" by linarith+
    then have "\<lfloor>y\<rfloor> = n" by (simp add: floor_eq_iff)
    with fl show ?thesis by simp
  qed
qed

text \<open>
  The rounding matters: for this value of \<^verbatim>\<open>Math.random()\<close> the two double operations
  give 557920, where the exact product and sum would give 557919.
\<close>

lemma otpNumber_rounds_up: "otpNumber \<lparr>mant = 4582862980812216, scale = 53\<rparr> = 557920"
proof -
  have a: "bits 4124576682730994400000 = Suc 71"
    by (rule bits_eq) simp_all
  have p: "roundTo53 4124576682730994400000 = 4124576682730994532352"
    unfolding roundTo53_def a by (simp add: nearest_def Let_def)
  have b: "bits 5025296608205093732352 = Suc 72"
    by (rule bits_eq) simp_all
  have "roundTo53 5025296608205093732352 = 5025296608205094256640"
    unfolding roundTo53_def b by (simp add: nearest_def Let_def)
  then show ?thesis
    by (simp add: otpNumber_def p)
qed

lemma exact_value_below:
  "\<lfloor>100000 + value_of \<lparr>mant = 4582862980812216, scale = 53\<rparr> * 900000\<rfloor> = 557919"
  by (simp add: value_of_def floor_eq_iff)

subsection \<open>The issued code\<close>

lemma generateOTP_shape:
  assumes "isRandom d"
  shows "length (generateOTP d) = 6" and "\<forall>c \<in> set (generateOTP d). isDigit c"
    and "int (decimal_value (generateOTP d)) = otpNumber d"
proof -
  from otpNumber_range [OF assms] have lo: "100000 \<le> otpNumber d" and hi: "otpNumber d \<le> 999999"
    by simp_all
  then have s: "generateOTP d = toString_nat (nat (otpNumber d))"
    by (simp add: generateOTP_def toString_def)
  have "10 ^ 5 \<le> nat (otpNumber d)" "nat (otpNumber d) < 10 ^ Suc 5"
    using lo hi by simp_all
  from toString_nat_length [OF this] show "length (generateOTP d) = 6"
    by (simp add: s)
  show "\<forall>c \<in> set (generateOTP d). isDigit c"
    unfolding s by (rule toString_nat_digits)
  show "int (decimal_value (generateOTP d)) = otpNumber d"
    using lo by (simp add: s decimal_value_toString_nat)
qed

lemma example_random: "isRandom (rnd example_io)"
  by (simp add: isRandom_def example_io_def)

lemma example_otpNumber: "otpNumber (rnd example_io) = 550000"
  by (rule otpNumber_near(2) [OF example_random]) (simp add: value_of_def example_io_def)

lemma toString_550000: "toString 550000 = ''550000''"
  by (simp add: toString_def toString_nat_small toString_nat_big digit_def)

lemma example_otp: "generateOTP (rnd example_io) = ''550000''"
  by (simp add: generateOTP_def example_otpNumber toString_550000)

lemma signup_check_status: "signup_check L db r = Some x \<Longrightarrow> status x = 400"
  by (auto simp: signup_check_def failure_def split: option.splits)

text \<open>
  Claim C8. With \<^verbatim>\<open>Math.random()\<close> a double at least 0 and less than 1, the code that
  \<open>generateOTP\<close> issues is a string of six decimal digits whose decimal value is the
  number computed, and that number lies between 100000 and 999999, both included. The
  number \<open>n\<close> is issued only for random values with \<open>900000 * r\<close> within \<open>1 / 2 ^ 33\<close> of
  the interval from \<open>n - 100000\<close> to \<open>n - 99999\<close>, and for every random value at least
  that far inside it: up to the rounding of the two double operations, each code has an
  interval of random values of the same length 1/900000, so the codes are as uniform as
  the random source is. A signup answered with 201 has added one account, which is not
  verified, holds the issued code, and whose code expires exactly 10 minutes (600000
  milliseconds) after the clock value read at issuance.
\<close>

theorem otp_issue:
  assumes "isRandom (rnd w)"
  shows "100000 \<le> otpNumber (rnd w) \<and> otpNumber (rnd w) \<le> 999999
       \<and> length (generateOTP (rnd w)) = 6
       \<and> (\<forall>c \<in> set (generateOTP (rnd w)). isDigit c)
       \<and> int (decimal_value (generateOTP (rnd w))) = otpNumber (rnd w)
       \<and> (otpNumber (rnd w) = n \<longrightarrow>
            real_of_int n - 100000 - 1 / 2 ^ 33 \<le> 900000 * value_of (rnd w)
            \<and> 900000 * value_of (rnd w) < real_of_int n - 99999 + 1 / 2 ^ 33)
       \<and> (real_of_int n - 100000 + 1 / 2 ^ 33 \<le> 900000 * value_of (rnd w)
            \<and> 900000 * value_of (rnd w) < real_of_int n - 99999 - 1 / 2 ^ 33 \<longrightarrow>
            otpNumber (rnd w) = n)
       \<and> (signup L w db req = (db', resp) \<and> status resp = 201 \<longrightarrow>
            (\<exists>u. db' = db @ [u] \<and> isEmailVerified u = False
                 \<and> otp u = Some (generateOTP (rnd w))
                 \<and> otpExpiry u = Some (clock w + 10 * 60 * 1000)))"
proof -
  have created: "\<exists>u. db' = db @ [u] \<and> isEmailVerified u = False
      \<and> otp u = Some (generateOTP (rnd w)) \<and> otpExpiry u = Some (clock w + 10 * 60 * 1000)"
    if s: "signup L w db req = (db', resp)" and ok: "status resp = 201"
  proof -
    have "signup_create L w db req = (db', resp)"
      using s ok by (auto simp: signup_def split: option.splits dest: signup_check_status)
    from signup_create_stored [OF this ok] show ?thesis by auto
  qed
  from otpNumber_range [OF assms] generateOTP_shape [OF assms]
    otpNumber_near(1) [OF assms, of n] otpNumber_near(2) [OF assms, of n] created
  show ?thesis by blast
qed

theorem otp_issue_witness:
  "isRandom (rnd example_io)
   \<and> otpNumber (rnd example_io) = 550000
   \<and> generateOTP (rnd example_io) = ''550000''
   \<and> decimal_value ''550000'' = 550000
   \<and> map otpExpiry (fst (signup example_lib (example_io\<lparr>clock := 1000\<rparr>) []
        \<lparr>s_email = ''carol@x.com'', s_password = ''secret1'', s_firstName = ''Carol'', s_lastName = ''C''\<rparr>))
      = [Some 601000]"
proof -
  let ?r = "\<lparr>s_email = ''carol@x.com'', s_password = ''secret1'', s_firstName = ''Carol'',
             s_lastName = ''C''\<rparr>"
  let ?w = "example_io\<lparr>clock := 1000\<rparr>"
  have r: "isRandom (rnd example_io)" by (rule example_random)
  have v: "real_of_int 550000 - 100000 + 1 / 2 ^ 33 \<le> 900000 * value_of (rnd example_io)
      \<and> 900000 * value_of (rnd example_io) < real_of_int 550000 - 99999 - 1 / 2 ^ 33"
    by (simp add: value_of_def example_io_def)
  from otp_issue [OF r, of 550000] v have n: "otpNumber (rnd example_io) = 550000"
    by blast
  then have g: "generateOTP (rnd example_io) = ''550000''"
    by (simp add: generateOTP_def toString_550000)
  from otp_issue [OF r, of 550000] g n have dv: "decimal_value ''550000'' = 550000"
    by simp
  have lc: "toLowerCase ''carol@x.com'' = ''carol@x.com''" by code_simp
  have tr: "trim ''Carol'' = ''Carol''" "trim ''C'' = ''C''" by code_simp+
  have re: "test emailPattern ''carol@x.com''" by code_simp
  have chk: "signup_check example_lib [] ?r = None"
    by (simp add: signup_check_def signupSchema_def notEmpty_def validEmail_def minLength_def
        maxLength_def example_lib_def findOne_def)
  have s201: "status (snd (signup example_lib ?w [] ?r)) = 201"
    by (simp add: signup_def chk signup_create_def Let_def save_new_def sendOTPEmail_def
        validate_def new_User_def lc tr re)
  have r': "isRandom (rnd ?w)"
    using r by (simp add: example_io_def)
  from otp_issue [OF r', of 550000 example_lib "[]" ?r "fst (signup example_lib ?w [] ?r)"
      "snd (signup example_lib ?w [] ?r)"] s201
  have "\<exists>u. fst (signup example_lib ?w [] ?r) = [u] \<and> otpExpiry u = Some 601000"
    by auto
  then have e: "map otpExpiry (fst (signup example_lib ?w [] ?r)) = [Some 601000]"
    by auto
  from r n g dv e show ?thesis by blast
qed

section \<open>When the mail is not delivered\<close>

text \<open>
  Claim C9. A signup whose mail is not delivered has the same outcome as one whose mail
  is: the same response and the same store, so the account is created and the success
  response returned. A resend for a stored, unverified account whose mail is not
  delivered answers 500 \<^verbatim>\<open>Failed to send OTP email\<close>, where a delivered one answers 200.
  In both resend outcomes the store already holds the new code and the new expiry: they
  are saved before the mail is attempted.
\<close>

theorem mail_failure:
  "signup L (w\<lparr>mailOk := False\<rparr>) db req = signup L (w\<lparr>mailOk := True\<rparr>) db req
   \<and> (e \<noteq> [] \<and> findOne (\<lambda>u. email u = toLowerCase e \<and> isEmailVerified u = False) db = Some stored \<longrightarrow>
        resend_otp (w\<lparr>mailOk := False\<rparr>) db e
          = (save_changes stored
               (\<lambda>u. u\<lparr>otp := Some (generateOTP (rnd w)), otpExpiry := Some (clock w + 10 * 60 * 1000)\<rparr>) db,
             failure 500 ''Failed to send OTP email'')
      \<and> resend_otp (w\<lparr>mailOk := True\<rparr>) db e
          = (save_changes stored
               (\<lambda>u. u\<lparr>otp := Some (generateOTP (rnd w)), otpExpiry := Some (clock w + 10 * 60 * 1000)\<rparr>) db,
             \<lparr>status = 200, success = True, message = ''OTP sent successfully'', data = NoData\<rparr>)
      \<and> (distinct (map uid db) \<longrightarrow>
            findById (uid stored) (fst (resend_otp (w\<lparr>mailOk := False\<rparr>) db e))
              = Some (stored\<lparr>otp := Some (generateOTP (rnd w)),
                              otpExpiry := Some (clock w + 10 * 60 * 1000)\<rparr>)))"
proof -
  let ?set = "\<lambda>u. u\<lparr>otp := Some (generateOTP (rnd w)), otpExpiry := Some (clock w + 10 * 60 * 1000)\<rparr>"
  have a: "signup L (w\<lparr>mailOk := False\<rparr>) db req = signup L (w\<lparr>mailOk := True\<rparr>) db req"
    by (simp add: signup_def signup_create_def sendOTPEmail_def Let_def
        split: option.splits sum.splits prod.splits)
  have b: "resend_otp (w\<lparr>mailOk := False\<rparr>) db e
        = (save_changes stored ?set db, failure 500 ''Failed to send OTP email'')"
    and c: "resend_otp (w\<lparr>mailOk := True\<rparr>) db e
        = (save_changes stored ?set db,
           \<lparr>status = 200, success = True, message = ''OTP sent successfully'', data = NoData\<rparr>)"
    and d: "distinct (map uid db) \<longrightarrow>
        findById (uid stored) (fst (resend_otp (w\<lparr>mailOk := False\<rparr>) db e)) = Some (?set stored)"
    if ne: "e \<noteq> []"
      and f: "findOne (\<lambda>u. email u = toLowerCase e \<and> isEmailVerified u = False) db = Some stored"
  proof -
    show b: "resend_otp (w\<lparr>mailOk := False\<rparr>) db e
        = (save_changes stored ?set db, failure 500 ''Failed to send OTP email'')"
      using ne f by (simp add: resend_otp_def Let_def sendOTPEmail_def)
    show "resend_otp (w\<lparr>mailOk := True\<rparr>) db e
        = (save_changes stored ?set db,
           \<lparr>status = 200, success = True, message = ''OTP sent successfully'', data = NoData\<rparr>)"
      using ne f by (simp add: resend_otp_def Let_def sendOTPEmail_def)
    from f have mem: "stored \<in> set db" by (auto dest: findOne_Some)
    show "distinct (map uid db) \<longrightarrow>
        findById (uid stored) (fst (resend_otp (w\<lparr>mailOk := False\<rparr>) db e)) = Some (?set stored)"
    proof
      assume dist: "distinct (map uid db)"
      from find_updateOne_uid [OF dist mem, of ?set]
      show "findById (uid stored) (fst (resend_otp (w\<lparr>mailOk := False\<rparr>) db e)) = Some (?set stored)"
        by (simp add: b save_changes_def findById_def)
    qed
  qed
  from a b c d show ?thesis by blast
qed

theorem mail_failure_witness:
  "status (snd (signup example_lib (example_io\<lparr>mailOk := False\<rparr>) [alice, bob]
       \<lparr>s_email = ''carol@x.com'', s_password = ''secret1'', s_firstName = ''Carol'', s_lastName = ''C''\<rparr>))
     = 201
   \<and> length (fst (signup example_lib (example_io\<lparr>mailOk := False\<rparr>) [alice, bob]
       \<lparr>s_email = ''carol@x.com'', s_password = ''secret1'', s_firstName = ''Carol'', s_lastName = ''C''\<rparr>))
     = 3
   \<and> findOne (\<lambda>u. email u = toLowerCase ''alice@x.com'' \<and> isEmailVerified u = False) [alice, bob]
     = Some alice
   \<and> resend_otp (example_io\<lparr>mailOk := False\<rparr>) [alice, bob] ''alice@x.com''
     = ([alice\<lparr>otp := Some ''550000'', otpExpiry := Some 600000\<rparr>, bob],
        failure 500 ''Failed to send OTP email'')"
proof -
  let ?r = "\<lparr>s_email = ''carol@x.com'', s_password = ''secret1'', s_firstName = ''Carol'',
             s_lastName = ''C''\<rparr>"
  have lc: "toLowerCase ''carol@x.com'' = ''carol@x.com''"
    "toLowerCase ''alice@x.com'' = ''alice@x.com''" by code_simp+
  have tr: "trim ''Carol'' = ''Carol''" "trim ''C'' = ''C''" by code_simp+
  have re: "test emailPattern ''carol@x.com''" by code_simp
  have chk: "signup_check example_lib [alice, bob] ?r = None"
    by (simp add: signup_check_def signupSchema_def notEmpty_def validEmail_def minLength_def
        maxLength_def example_lib_def findOne_def lc alice_def bob_def)
  have ok: "status (snd (signup example_lib (example_io\<lparr>mailOk := True\<rparr>) [alice, bob] ?r)) = 201
      \<and> length (fst (signup example_lib (example_io\<lparr>mailOk := True\<rparr>) [alice, bob] ?r)) = 3"
    unfolding signup_def chk
    by (simp add: signup_create_def Let_def save_new_def sendOTPEmail_def
        validate_def new_User_def lc tr re alice_def bob_def email_pre_save)
  have f: "findOne (\<lambda>u. email u = toLowerCase ''alice@x.com'' \<and> isEmailVerified u = False) [alice, bob]
     = Some alice"
    by (simp add: findOne_def lc alice_def)
  have g: "generateOTP (rnd example_io) = ''550000''"
    by (rule example_otp)
  have ne: "''alice@x.com'' \<noteq> []" by simp
  show ?thesis
    using ok f g
      mail_failure [of example_lib example_io "[alice, bob]" ?r "''alice@x.com''" alice]
    by (simp add: save_changes_def alice_def bob_def example_io_def)
qed

section \<open>The development token of the Google login\<close>





section \<open>Linking or creating a federated account\<close>

lemma find_updateOne_first:
  assumes "distinct (map uid db)" and "find q db = Some s" and "q (f s)"
  shows "find q (updateOne (\<lambda>v. uid v = uid s) f db) = Some (f s)"
  using assms(1,2)
proof (induction db)
  case Nil
  then show ?case by simp
next
  case (Cons a db)
  show ?case
  proof (cases "q a")
    case True
    with Cons.prems have "a = s" by simp
    then show ?thesis by (simp add: assms(3))
  next
    case False
    with Cons.prems have f: "find q db = Some s" by simp
    then have "s \<in> set db" by (auto simp: find_Some_iff)
    with Cons.prems(1) have "uid a \<noteq> uid s" by (auto simp: image_iff)
    with False f Cons show ?thesis by simp
  qed
qed

lemma find_append:
  "find q (xs @ ys) = (case find q xs of None \<Rightarrow> find q ys | Some x \<Rightarrow> Some x)"
  by (induction xs) auto

lemma link_select_default: "select_default (link gid u) = link gid (select_default u)"
  by (simp add: select_default_def link_def)

text \<open>
  Calling \<open>linkOrCreate\<close> a second time with the same profile returns the same account
  and leaves the store as the first call left it: an account that the first call created
  or linked is found again, and nothing is created.
\<close>

lemma linkOrCreate_twice:
  assumes "distinct (map uid db)" and "gid \<noteq> []"
    and "linkOrCreate L w1 db gid e fname lname pic = Inr (db1, u1)"
  shows "linkOrCreate L w2 db1 gid e fname lname pic = Inr (db1, u1)"
proof (cases "findOne (\<lambda>u. email u = toLowerCase e \<or> googleId u = Some gid) db")
  case None
  let ?d = "new_User (new_id db) e None fname lname (Some gid) (or_default pic []) None None True"
  from None assms(3) have s: "save_new L (salt w1) db ?d = Inr (db1, u1)"
    by (simp add: linkOrCreate_def)
  from save_new_Inr [OF s] have db1: "db1 = db @ [u1]" and u1: "u1 = ?d"
    by (simp_all add: pre_save_def new_User_def)
  from None have "find (\<lambda>u. email u = toLowerCase e \<or> googleId u = Some gid) db = None"
    by (simp add: findOne_def)
  then have "findOne (\<lambda>u. email u = toLowerCase e \<or> googleId u = Some gid) db1 = Some u1"
    by (simp add: findOne_def db1 find_append u1 new_User_def)
  moreover have "select_default u1 = u1" "\<not> falsy (googleId u1)"
    using assms(2) by (simp_all add: u1 new_User_def select_default_def falsy_def)
  ultimately show ?thesis
    by (simp add: linkOrCreate_def)
next
  case (Some stored)
  show ?thesis
  proof (cases "falsy (googleId stored)")
    case True
    with Some assms(3) have db1: "db1 = save_changes stored (link gid) db"
      and u1: "u1 = link gid (select_default stored)"
      by (simp_all add: linkOrCreate_def Let_def select_default_def)
    from Some have q: "email stored = toLowerCase e \<or> googleId stored = Some gid"
      by (auto dest: findOne_Some)
    have "findOne (\<lambda>u. email u = toLowerCase e \<or> googleId u = Some gid) db1
        = Some (link gid stored)"
      unfolding findOne_def db1 save_changes_def
      by (rule find_updateOne_first [OF assms(1)]) (use Some in \<open>simp_all add: findOne_def link_def\<close>)
    moreover have "\<not> falsy (googleId (select_default (link gid stored)))"
      using assms(2) by (simp add: falsy_def link_def select_default_def)
    ultimately show ?thesis
      by (simp add: linkOrCreate_def Let_def u1 link_select_default)
  next
    case False
    with Some assms(3) have "db1 = db" and "u1 = select_default stored"
      by (simp_all add: linkOrCreate_def Let_def select_default_def)
    with Some False show ?thesis
      by (simp add: linkOrCreate_def Let_def select_default_def)
  qed
qed

text \<open>
  Claim C7 says that the store never holds two accounts for one federated subject, and
  the schema's comment on \<^verbatim>\<open>googleId\<close> says that its values are unique. The field is
  declared \<^verbatim>\<open>sparse\<close> only, so no index refuses a second holder, and the handler stamps
  the subject on the first account that matches by email without looking for an account
  that holds the subject already. Here \<open>dave\<close> holds the subject \<^verbatim>\<open>g-1\<close>, the Google
  profile of \<^verbatim>\<open>g-1\<close> now carries Carol's address, and after the login both \<open>carol\<close>
  and \<open>dave\<close> hold \<^verbatim>\<open>g-1\<close>.
\<close>

theorem google_links_second_account:
  "map googleId [carol, dave] = [None, Some ''g-1'']
   \<and> status (snd (google carol_ticket example_lib unset_env example_io [carol, dave] ''token'')) = 200
   \<and> map email (fst (google carol_ticket example_lib unset_env example_io [carol, dave] ''token''))
       = [''carol@x.com'', ''dave@x.com'']
   \<and> map googleId (fst (google carol_ticket example_lib unset_env example_io [carol, dave] ''token''))
       = [Some ''g-1'', Some ''g-1'']"
proof -
  have lc: "toLowerCase ''carol@x.com'' = ''carol@x.com''" by code_simp
  have l: "linkOrCreate example_lib example_io [carol, dave] ''g-1'' ''carol@x.com'' ''Carol'' ''C'' None
      = Inr ([link ''g-1'' carol, dave], link ''g-1'' (select_default carol))"
    by (simp add: linkOrCreate_def lc findOne_def carol_def dave_def select_default_def falsy_def
        save_changes_def)
  have g: "google carol_ticket example_lib unset_env example_io [carol, dave] ''token''
      = google_session example_lib unset_env example_io [carol, dave] ''Login successful''
          (Inr ([link ''g-1'' carol, dave], link ''g-1'' (select_default carol)))"
    by (simp add: google_def googleAuthSchema_def notEmpty_def google_verified_def carol_ticket_def
        unset_env_def l)
  have t: "\<exists>t. generateToken example_lib unset_env (clock example_io) (link ''g-1'' (select_default carol))
      = Inr t"
    by (simp add: generateToken_def jwt_sign_def example_lib_def expiresIn_def unset_env_def
        or_default_def Let_def)
  then obtain t where "generateToken example_lib unset_env (clock example_io)
      (link ''g-1'' (select_default carol)) = Inr t" by blast
  then have "google carol_ticket example_lib unset_env example_io [carol, dave] ''token''
      = ([link ''g-1'' carol, dave], session ''Login successful'' t (link ''g-1'' (select_default carol)))"
    by (simp add: g google_session_def)
  then show ?thesis
    by (simp add: session_def link_def carol_def dave_def)
qed

end
